theory Spec2Isabelle
  imports Main "HOL-Library.Word"
begin

section \<open>Values shared by the server's modules\<close>

text \<open>
  The collaboration server is JavaScript. Socket ids, room ids, credentials and the
  contents of an ArrayBuffer are modelled as strings. A value that JavaScript may leave
  \<open>undefined\<close> is an \<open>option\<close>; where the code distinguishes \<open>null\<close> from
  \<open>undefined\<close> (the arguments of \<open>syncRoomData\<close>) the type \<open>js\<close> keeps both.
\<close>

type_synonym socket_id = string
type_synonym room_id = string
type_synonym jwt_token = string
type_synonym buffer = string

datatype 'a js = Undefined | Null | Val 'a

datatype json =
    JNull
  | JBool bool
  | JNum int
  | JStr string
  | JArr "json list"
  | JObj "(string \<times> json) list"

datatype fault = TypeError | SyntaxError | AuthenticationError | StoreError

text \<open>\<open>process.env\<close>: a variable is unset or holds a string.\<close>

type_synonym process_env = "string \<Rightarrow> string option"

text \<open>JavaScript truthiness of a value that is either \<open>undefined\<close> or a string.\<close>

definition truthy :: "string option \<Rightarrow> bool" where
  "truthy v = (case v of None \<Rightarrow> False | Some x \<Rightarrow> x \<noteq> [])"

section \<open>JwtSecretManager: \<open>getOrCreateJwtSecretKey\<close>\<close>

text \<open>
  \<open>crypto.randomBytes(n)\<close> belongs to the runtime. The entropy it draws from is a
  parameter, a stream of bytes; \<open>randomBytes\<close> reads its first \<open>n\<close> bytes.
  \<open>Buffer.toString('hex')\<close> writes every byte as two lower-case hexadecimal digits.
\<close>

definition randomBytes :: "(nat \<Rightarrow> 8 word) \<Rightarrow> nat \<Rightarrow> 8 word list" where
  "randomBytes rnd n = map rnd [0..<n]"

definition hex_digit :: "nat \<Rightarrow> char" where
  "hex_digit n = ''0123456789abcdef'' ! (n mod 16)"

definition hex_byte :: "8 word \<Rightarrow> string" where
  "hex_byte w = [hex_digit (unat w div 16), hex_digit (unat w mod 16)]"

definition toString_hex :: "8 word list \<Rightarrow> string" where
  "toString_hex bs = concat (map hex_byte bs)"

text \<open>
  The function returns the variable as read back from the environment after the
  branch, together with the environment it leaves. The two \<open>console.log\<close> calls have no
  effect on either.
\<close>

text \<open>
  \<^verbatim>\<open>
  export default function getOrCreateJwtSecretKey() {
    if (!process.env.JWT_SECRET_KEY) {
      const newSecret = crypto.randomBytes(32).toString('hex')
      process.env.JWT_SECRET_KEY = newSecret
    }
    return process.env.JWT_SECRET_KEY
  }
  \<close>
\<close>

definition getOrCreateJwtSecretKey ::
    "(nat \<Rightarrow> 8 word) \<Rightarrow> process_env \<Rightarrow> string option \<times> process_env" where
  "getOrCreateJwtSecretKey rnd env =
     (let env' =
        (if \<not> truthy (env ''JWT_SECRET_KEY'')
         then (let newSecret = toString_hex (randomBytes rnd 32)
               in env(''JWT_SECRET_KEY'' \<mapsto> newSecret))
         else env)
      in (env' ''JWT_SECRET_KEY'', env'))"

section \<open>SharedTokenGenerator and AppManager\<close>

record shared_token_generator =
  SHARED_SECRET :: "string option"

definition SharedTokenGenerator_constructor ::
    "(nat \<Rightarrow> 8 word) \<Rightarrow> process_env \<Rightarrow> shared_token_generator \<times> process_env" where
  "SharedTokenGenerator_constructor rnd env =
     (case getOrCreateJwtSecretKey rnd env of
        (k, env') \<Rightarrow> (\<lparr>SHARED_SECRET = k\<rparr>, env'))"

record app_manager =
  METRICS_TOKEN :: "string option"
  JWT_SECRET_KEY :: "string option"

definition AppManager_constructor ::
    "(nat \<Rightarrow> 8 word) \<Rightarrow> process_env \<Rightarrow> app_manager \<times> process_env" where
  "AppManager_constructor rnd env =
     (let mt = env ''METRICS_TOKEN''
      in case getOrCreateJwtSecretKey rnd env of
           (k, env') \<Rightarrow> (\<lparr>METRICS_TOKEN = mt, JWT_SECRET_KEY = k\<rparr>, env'))"

subsection \<open>The metrics endpoint\<close>

text \<open>
  \<open>String.prototype.split\<close> with a one-character separator: the pieces between the
  separators, empty pieces included; the empty string gives one empty piece.
\<close>

fun split_on :: "char \<Rightarrow> string \<Rightarrow> string list" where
  "split_on c [] = [[]]"
| "split_on c (x # xs) =
     (if x = c then [] # split_on c xs
      else (case split_on c xs of
              [] \<Rightarrow> [[x]]
            | p # ps \<Rightarrow> (x # p) # ps))"

text \<open>
  A parsed query parameter is a string, or an array or object of parameters; the last
  two are never strictly equal to a string and are always truthy.
\<close>

datatype qvalue = QString string | QArray "qvalue list" | QObject "(string \<times> qvalue) list"

record request =
  authorization :: "string option"
  query_token :: "qvalue option"

record response =
  status :: nat
  body :: string
  content_type :: "string option"

text \<open>\<open>req.headers.authorization?.split(' ')[1]\<close>\<close>

definition bearer_part :: "request \<Rightarrow> string option" where
  "bearer_part req =
     (case authorization req of
        None \<Rightarrow> None
      | Some h \<Rightarrow> (case split_on CHR '' '' h of
                    _ # p # _ \<Rightarrow> Some p
                  | _ \<Rightarrow> None))"

text \<open>\<open>... || req.query.token\<close>\<close>

definition request_token :: "request \<Rightarrow> qvalue option" where
  "request_token req =
     (if truthy (bearer_part req) then map_option QString (bearer_part req)
      else query_token req)"

text \<open>
  The register of the metrics manager (PrometheusDataManager) is passed in as the text
  it renders and its content type.
\<close>

text \<open>
  \<^verbatim>\<open>
  async metricsHandler(req, res) {
    const token = req.headers.authorization?.split(' ')[1] || req.query.token
    if (!this.METRICS_TOKEN || token !== this.METRICS_TOKEN) {
      return res.status(403).send('Unauthorized')
    }
    this.metricsManager.updateMetrics()
    const metrics = await this.metricsManager.getRegister().metrics()
    res.set('Content-Type', this.metricsManager.getRegister().contentType)
    res.end(metrics)
  }
  \<close>
\<close>

definition metricsHandler :: "app_manager \<Rightarrow> string \<times> string \<Rightarrow> request \<Rightarrow> response" where
  "metricsHandler app reg req =
     (let token = request_token req
      in if \<not> truthy (METRICS_TOKEN app) \<or> token \<noteq> map_option QString (METRICS_TOKEN app)
         then \<lparr>status = 403, body = ''Unauthorized'', content_type = None\<rparr>
         else \<lparr>status = 200, body = fst reg, content_type = Some (snd reg)\<rparr>)"

section \<open>SocketManager: data\<close>

record user_info =
  user_id :: string
  user_name :: string

text \<open>
  SessionData, the decoded claims of a credential: \<open>user\<close>, \<open>fileId\<close>,
  \<open>permissions\<close> (the value 1 is read-only) and \<open>token\<close>.
\<close>

record session_data =
  user :: user_info
  fileId :: string
  permissions :: int
  token :: "string option"

text \<open>An entry of a presence list: \<open>{ socketId, user }\<close>.\<close>

type_synonym user_socket = "socket_id \<times> user_info"

text \<open>
  What a socket is sent: the event name with its arguments. \<open>client-broadcast\<close>
  carries \<open>encryptedData\<close> and, on the durable path, \<open>iv\<close>; \<open>joined-data\<close> carries
  the snapshot (its second argument is always the empty array).
\<close>

datatype msg =
    InitRoom
  | ReadOnly
  | JoinedData buffer
  | RoomNotFound
  | RoomUserChange "user_socket list"
  | ClientBroadcast buffer "buffer option"

fun msg_name :: "msg \<Rightarrow> string" where
  "msg_name InitRoom = ''init-room''"
| "msg_name ReadOnly = ''read-only''"
| "msg_name (JoinedData _) = ''joined-data''"
| "msg_name RoomNotFound = ''room-not-found''"
| "msg_name (RoomUserChange _) = ''room-user-change''"
| "msg_name (ClientBroadcast _ _) = ''client-broadcast''"

text \<open>
  One \<open>emit\<close>: the socket whose handler issued it, the sockets it is delivered to, the
  message, and whether it went through \<open>socket.volatile\<close>.
\<close>

record emission =
  origin :: socket_id
  recipients :: "socket_id list"
  payload :: msg
  volatile :: bool

text \<open>The arguments of one \<open>roomDataManager.syncRoomData\<close> call.\<close>

record sync_call =
  sc_roomID :: room_id
  sc_elements :: "json js"
  sc_users :: "string list"
  sc_lastEditedUser :: "string js"
  sc_jwtToken :: "string js"

text \<open>Its outcome: it throws, resolves to no room, or resolves to a room with \<open>data\<close>.\<close>

datatype sync_result = SyncThrows | SyncNoRoom | SyncRoom json

datatype jwt_error = TokenExpiredError | JsonWebTokenError

text \<open>
  The collaborators that are not part of SocketManager, as parameters:
  \<^item> \<open>jwt_verify\<close>: \<open>jwt.verify\<close> of the jsonwebtoken library, given the credential and
    the secret read from \<open>process.env.JWT_SECRET_KEY\<close>;
  \<^item> \<open>json_parse\<close>: \<open>JSON.parse(Utils.convertArrayBufferToString(buf))\<close>, \<open>None\<close> when
    it throws; the objects it returns have distinct keys;
  \<^item> \<open>json_render\<close>: \<open>Utils.convertStringToArrayBuffer(JSON.stringify(v))\<close>;
  \<^item> \<open>syncRoomData\<close>: the Room Store, whose answer may depend on the calls it has
    already received.
\<close>

record deps =
  jwt_verify :: "jwt_token \<Rightarrow> string option \<Rightarrow> jwt_error + session_data"
  json_parse :: "buffer \<Rightarrow> json option"
  json_render :: "json \<Rightarrow> buffer"
  syncRoomData :: "sync_call list \<Rightarrow> sync_call \<Rightarrow> sync_result"

text \<open>
  The state one server instance holds and the trace of what it has done:
  \<^item> \<open>joined\<close>: the socket.io adapter's membership, the pairs (socket, room) in the order
    they were added; every connected socket is in the room named by its own id;
  \<^item> \<open>socketDataMap\<close>, \<open>cachedTokens\<close>: the two mappings of SocketDataManager;
  \<^item> \<open>processEnv\<close>: \<open>process.env\<close>;
  \<^item> \<open>emitted\<close>, \<open>syncCalls\<close>, \<open>verifyCalls\<close>: every emit, every Room Store call and
    every \<open>jwt.verify\<close> call so far, oldest first.
  A handler for a client event is modelled as running to completion on the state it
  finds; the interleaving of several such handlers at their \<open>await\<close> points is not
  represented. The one interleaving that socket.io itself imposes, between the
  \<open>disconnecting\<close> handler and the socket leaving its rooms, is modelled (see
  \<open>disconnectingHandler\<close> and \<open>handle\<close>).
\<close>

record state =
  joined :: "(socket_id \<times> room_id) list"
  socketDataMap :: "socket_id \<Rightarrow> session_data option"
  cachedTokens :: "jwt_token \<Rightarrow> session_data option"
  processEnv :: process_env
  emitted :: "emission list"
  syncCalls :: "sync_call list"
  verifyCalls :: "jwt_token list"

section \<open>The transport (socket.io, in-memory adapter)\<close>

text \<open>\<open>io.in(roomID).fetchSockets()\<close>: the ids of the sockets in the room.\<close>

definition fetchSockets :: "state \<Rightarrow> room_id \<Rightarrow> socket_id list" where
  "fetchSockets s roomID = map fst (filter (\<lambda>m. snd m = roomID) (joined s))"

text \<open>\<open>socket.rooms\<close>: the rooms the socket is in.\<close>

definition socket_rooms :: "state \<Rightarrow> socket_id \<Rightarrow> room_id list" where
  "socket_rooms s sid = map snd (filter (\<lambda>m. fst m = sid) (joined s))"

text \<open>\<open>socket.join(roomID)\<close>: adds the socket to the room unless it is already there.\<close>

definition socket_join :: "state \<Rightarrow> socket_id \<Rightarrow> room_id \<Rightarrow> state" where
  "socket_join s sid roomID =
     (if (sid, roomID) \<in> set (joined s) then s
      else s\<lparr>joined := joined s @ [(sid, roomID)]\<rparr>)"

text \<open>The socket leaves every room, as socket.io does between \<open>disconnecting\<close> and \<open>disconnect\<close>.\<close>

definition socket_leaveAll :: "state \<Rightarrow> socket_id \<Rightarrow> state" where
  "socket_leaveAll s sid = s\<lparr>joined := filter (\<lambda>m. fst m \<noteq> sid) (joined s)\<rparr>"

text \<open>
  The three ways the handlers address an emit: \<open>socket.emit\<close> (the socket itself),
  \<open>io.in(roomID).emit\<close> (every socket in the room) and
  \<open>socket.broadcast.to(roomID).emit\<close> (every socket in the room but the sender).
\<close>

definition to_self :: "socket_id \<Rightarrow> socket_id list" where
  "to_self sid = [sid]"

definition io_in :: "state \<Rightarrow> room_id \<Rightarrow> socket_id list" where
  "io_in s roomID = fetchSockets s roomID"

definition broadcast_to :: "state \<Rightarrow> socket_id \<Rightarrow> room_id \<Rightarrow> socket_id list" where
  "broadcast_to s sid roomID = filter (\<lambda>x. x \<noteq> sid) (fetchSockets s roomID)"

definition emit :: "state \<Rightarrow> socket_id \<Rightarrow> socket_id list \<Rightarrow> msg \<Rightarrow> bool \<Rightarrow> state" where
  "emit s sid rcpts m vol =
     s\<lparr>emitted := emitted s @ [\<lparr>origin = sid, recipients = rcpts, payload = m, volatile = vol\<rparr>]\<rparr>"

section \<open>SocketDataManager\<close>

text \<open>
  Modelled from the spec: SocketDataManager.js is not among the sources. The spec's
  Session Cache is two independent mappings, credential to SessionData and connection id
  to SessionData, with no expiry check at lookup and no eviction: an entry lives until it
  is overwritten or, for the connection mapping, deleted when the connection closes.
\<close>

definition getCachedToken :: "state \<Rightarrow> jwt_token \<Rightarrow> session_data option" where
  "getCachedToken s tok = cachedTokens s tok"

text \<open>Modelled from the spec: the credential mapping of the Session Cache, written.\<close>

definition setCachedToken :: "state \<Rightarrow> jwt_token \<Rightarrow> session_data \<Rightarrow> state" where
  "setCachedToken s tok d = s\<lparr>cachedTokens := (cachedTokens s)(tok \<mapsto> d)\<rparr>"

text \<open>Modelled from the spec: the connection mapping of the Session Cache, read.\<close>

definition getSocketData :: "state \<Rightarrow> socket_id \<Rightarrow> session_data option" where
  "getSocketData s sid = socketDataMap s sid"

text \<open>Modelled from the spec: the connection mapping of the Session Cache, written.\<close>

definition setSocketData :: "state \<Rightarrow> socket_id \<Rightarrow> session_data \<Rightarrow> state" where
  "setSocketData s sid d = s\<lparr>socketDataMap := (socketDataMap s)(sid \<mapsto> d)\<rparr>"

text \<open>Modelled from the spec: the connection mapping of the Session Cache, entry removed.\<close>

definition deleteSocketData :: "state \<Rightarrow> socket_id \<Rightarrow> state" where
  "deleteSocketData s sid = s\<lparr>socketDataMap := (socketDataMap s)(sid := None)\<rparr>"

section \<open>Values decoded from a payload\<close>

text \<open>
  Reading a property of a parsed value: \<open>null\<close> throws a TypeError, an object gives
  the property or \<open>undefined\<close>, and any other value gives \<open>undefined\<close> for the names
  the handlers read (\<open>type\<close>, \<open>payload\<close>, \<open>elements\<close>), none of which is a built-in
  property of a string, a number, a boolean or an array.
\<close>

fun js_prop :: "json \<Rightarrow> string \<Rightarrow> fault + json option" where
  "js_prop JNull k = Inl TypeError"
| "js_prop (JObj fs) k = Inr (map_of fs k)"
| "js_prop _ k = Inr None"

text \<open>Decimal digits of an array index, as a property name.\<close>

fun string_of_nat :: "nat \<Rightarrow> string" where
  "string_of_nat n =
     (if n < 10 then [char_of (48 + n)]
      else string_of_nat (n div 10) @ [char_of (48 + n mod 10)])"

declare string_of_nat.simps [simp del]

text \<open>
  Object spread \<open>{ ...v }\<close>: the own enumerable properties of \<open>v\<close>. An object gives
  its properties, an array its elements and a string its characters under their
  indices, anything else (also \<open>undefined\<close>) nothing.
\<close>

fun spread :: "json option \<Rightarrow> (string \<times> json) list" where
  "spread (Some (JObj fs)) = fs"
| "spread (Some (JArr xs)) = map (\<lambda>(i, v). (string_of_nat i, v)) (enumerate 0 xs)"
| "spread (Some (JStr cs)) = map (\<lambda>(i, c). (string_of_nat i, JStr [c])) (enumerate 0 cs)"
| "spread _ = []"

text \<open>
  Defining a property in an object literal after a spread: an existing property of that
  name keeps its place and takes the new value, a new one goes last.
\<close>

fun obj_set :: "(string \<times> json) list \<Rightarrow> string \<Rightarrow> json \<Rightarrow> (string \<times> json) list" where
  "obj_set [] k v = [(k, v)]"
| "obj_set ((k', v') # fs) k v =
     (if k' = k then (k, v) # fs else (k', v') # obj_set fs k v)"

definition json_of_user :: "user_info \<Rightarrow> json" where
  "json_of_user u = JObj [(''id'', JStr (user_id u)), (''name'', JStr (user_name u))]"

text \<open>\<open>undefined\<close>, \<open>null\<close> or a value, as an argument of a call.\<close>

fun js_of_prop :: "json option \<Rightarrow> json js" where
  "js_of_prop None = Undefined"
| "js_of_prop (Some JNull) = Null"
| "js_of_prop (Some v) = Val v"

section \<open>SocketManager: the handlers\<close>

text \<open>
  \<^verbatim>\<open>
  async verifyToken(token) {
    const cachedToken = await this.socketDataManager.getCachedToken(token)
    if (cachedToken) return cachedToken
    return new Promise((resolve, reject) => {
      jwt.verify(token, process.env.JWT_SECRET_KEY, async (err, decoded) => {
        if (err) { ...; return reject(new Error('Authentication error')) }
        await this.socketDataManager.setCachedToken(token, decoded)
        resolve(decoded)
      })
    })
  }
  \<close>
  A cached entry is a decoded claims object and so always truthy.
\<close>

definition verifyToken :: "deps \<Rightarrow> state \<Rightarrow> jwt_token \<Rightarrow> (fault + session_data) \<times> state" where
  "verifyToken E s tok =
     (case getCachedToken s tok of
        Some cachedToken \<Rightarrow> (Inr cachedToken, s)
      | None \<Rightarrow>
          (let s1 = s\<lparr>verifyCalls := verifyCalls s @ [tok]\<rparr>
           in case jwt_verify E tok (processEnv s ''JWT_SECRET_KEY'') of
                Inl err \<Rightarrow> (Inl AuthenticationError, s1)
              | Inr decoded \<Rightarrow> (Inr decoded, setCachedToken s1 tok decoded)))"

text \<open>
  The handshake middleware. The result is the argument given to \<open>next\<close>: \<open>None\<close> lets
  the connection through, an error rejects it.
\<close>

definition socketAuthenticateHandler ::
    "deps \<Rightarrow> state \<Rightarrow> socket_id \<Rightarrow> jwt_token option \<Rightarrow> fault option \<times> state" where
  "socketAuthenticateHandler E s sid tok =
     (case tok of
        None \<Rightarrow> (Some AuthenticationError, s)
      | Some t \<Rightarrow>
          if t = [] then (Some AuthenticationError, s)
          else (case verifyToken E s t of
                  (Inl e, s1) \<Rightarrow> (Some AuthenticationError, s1)
                | (Inr decodedData, s1) \<Rightarrow>
                    (let s2 = setSocketData s1 sid decodedData;
                         s3 = (if permissions decodedData = 1
                               then emit s2 sid (to_self sid) ReadOnly False
                               else s2)
                     in (None, s3))))"

definition handleConnection :: "state \<Rightarrow> socket_id \<Rightarrow> state" where
  "handleConnection s sid = emit s sid (to_self sid) InitRoom False"

definition handleDisconnect :: "state \<Rightarrow> socket_id \<Rightarrow> state" where
  "handleDisconnect s sid = deleteSocketData s sid"

definition isSocketReadOnly :: "state \<Rightarrow> socket_id \<Rightarrow> bool" where
  "isSocketReadOnly s sid =
     (case getSocketData s sid of
        None \<Rightarrow> False
      | Some socketData \<Rightarrow> permissions socketData = 1)"

text \<open>
  The \<open>map\<close> of \<open>getUserSockets\<close> and \<open>getOtherUserSockets\<close> over the fetched
  sockets: reading \<open>data.user\<close> throws when a socket has no session data.
\<close>

fun user_sockets_of :: "state \<Rightarrow> socket_id list \<Rightarrow> fault + user_socket list" where
  "user_sockets_of s [] = Inr []"
| "user_sockets_of s (x # xs) =
     (case getSocketData s x of
        None \<Rightarrow> Inl TypeError
      | Some data \<Rightarrow>
          (case user_sockets_of s xs of
             Inl e \<Rightarrow> Inl e
           | Inr rest \<Rightarrow> Inr ((x, user data) # rest)))"

definition getUserSockets :: "state \<Rightarrow> room_id \<Rightarrow> fault + user_socket list" where
  "getUserSockets s roomID = user_sockets_of s (fetchSockets s roomID)"

definition getOtherUserSockets ::
    "state \<Rightarrow> room_id \<Rightarrow> socket_id \<Rightarrow> fault + user_socket list" where
  "getOtherUserSockets s roomID currentSocketId =
     user_sockets_of s (filter (\<lambda>x. x \<noteq> currentSocketId) (fetchSockets s roomID))"

text \<open>
  The \<open>userIds\<close> of the three handlers: \<open>data.user.id\<close> for every entry of
  \<open>userSockets\<close>, one after the other, in their order.
\<close>

fun user_ids_of :: "state \<Rightarrow> user_socket list \<Rightarrow> fault + string list" where
  "user_ids_of s [] = Inr []"
| "user_ids_of s (x # xs) =
     (case getSocketData s (fst x) of
        None \<Rightarrow> Inl TypeError
      | Some data \<Rightarrow>
          (case user_ids_of s xs of
             Inl e \<Rightarrow> Inl e
           | Inr rest \<Rightarrow> Inr (user_id (user data) # rest)))"

text \<open>A Room Store call: recorded, then answered.\<close>

definition call_store :: "deps \<Rightarrow> state \<Rightarrow> sync_call \<Rightarrow> sync_result \<times> state" where
  "call_store E s c = (syncRoomData E (syncCalls s) c, s\<lparr>syncCalls := syncCalls s @ [c]\<rparr>)"

text \<open>
  A handler returns the state it leaves and, when it throws, the error. What it has
  emitted or sent to the Room Store before throwing stays done.
\<close>

text \<open>
  \<^verbatim>\<open>
  async joinRoomHandler(socket, roomID) {
    await socket.join(roomID)
    const userSockets = await this.getUserSockets(roomID)
    const userIds = await Promise.all(userSockets.map(async s => {
      const data = await this.socketDataManager.getSocketData(s.socketId)
      return data.user.id
    }))
    const socketData = await this.socketDataManager.getSocketData(socket.id)
    const room = await this.roomDataManager.syncRoomData(roomID, null, userIds, null, socketData.token)
    if (room) {
      socket.emit('joined-data', Utils.convertStringToArrayBuffer(JSON.stringify(room.data)), [])
      const otherUserSockets = await this.getOtherUserSockets(roomID, socket.id)
      this.io.in(roomID).emit('room-user-change', otherUserSockets)
    } else {
      socket.emit('room-not-found')
    }
  }
  \<close>
\<close>

definition joinRoomHandler ::
    "deps \<Rightarrow> state \<Rightarrow> socket_id \<Rightarrow> room_id \<Rightarrow> state \<times> fault option" where
  "joinRoomHandler E s sid roomID =
     (let s1 = socket_join s sid roomID
      in case getUserSockets s1 roomID of
           Inl e \<Rightarrow> (s1, Some e)
         | Inr userSockets \<Rightarrow>
        (case user_ids_of s1 userSockets of
           Inl e \<Rightarrow> (s1, Some e)
         | Inr userIds \<Rightarrow>
        (case getSocketData s1 sid of
           None \<Rightarrow> (s1, Some TypeError)
         | Some socketData \<Rightarrow>
        (case call_store E s1
                \<lparr>sc_roomID = roomID, sc_elements = Null, sc_users = userIds,
                 sc_lastEditedUser = Null,
                 sc_jwtToken = (case token socketData of None \<Rightarrow> Undefined | Some t \<Rightarrow> Val t)\<rparr> of
           (SyncThrows, s2) \<Rightarrow> (s2, Some StoreError)
         | (SyncNoRoom, s2) \<Rightarrow> (emit s2 sid (to_self sid) RoomNotFound False, None)
         | (SyncRoom room_data, s2) \<Rightarrow>
             (let s3 = emit s2 sid (to_self sid) (JoinedData (json_render E room_data)) False
              in case getOtherUserSockets s3 roomID sid of
                   Inl e \<Rightarrow> (s3, Some e)
                 | Inr otherUserSockets \<Rightarrow>
                     (emit s3 sid (io_in s3 roomID) (RoomUserChange otherUserSockets) False,
                      None))))))"

text \<open>
  \<^verbatim>\<open>
  async serverBroadcastHandler(socket, roomID, encryptedData, iv) {
    const isReadOnly = await this.isSocketReadOnly(socket.id)
    if (!socket.rooms.has(roomID) || isReadOnly) return
    socket.broadcast.to(roomID).emit('client-broadcast', encryptedData, iv)
    const decryptedData = JSON.parse(Utils.convertArrayBufferToString(encryptedData))
    const socketData = await this.socketDataManager.getSocketData(socket.id)
    const userId = socketData.user.id
    const userSockets = await this.getUserSockets(roomID)
    const userIds = await Promise.all(userSockets.map(...))
    await this.roomDataManager.syncRoomData(roomID, decryptedData.payload.elements, userIds, userId)
  }
  \<close>
\<close>

definition serverBroadcastHandler ::
    "deps \<Rightarrow> state \<Rightarrow> socket_id \<Rightarrow> room_id \<Rightarrow> buffer \<Rightarrow> buffer option \<Rightarrow> state \<times> fault option" where
  "serverBroadcastHandler E s sid roomID encryptedData iv =
     (let isReadOnly = isSocketReadOnly s sid
      in if roomID \<notin> set (socket_rooms s sid) \<or> isReadOnly then (s, None)
         else
        (let s1 = emit s sid (broadcast_to s sid roomID) (ClientBroadcast encryptedData iv) False
         in case json_parse E encryptedData of
              None \<Rightarrow> (s1, Some SyntaxError)
            | Some decryptedData \<Rightarrow>
           (case getSocketData s1 sid of
              None \<Rightarrow> (s1, Some TypeError)
            | Some socketData \<Rightarrow>
           (case getUserSockets s1 roomID of
              Inl e \<Rightarrow> (s1, Some e)
            | Inr userSockets \<Rightarrow>
           (case user_ids_of s1 userSockets of
              Inl e \<Rightarrow> (s1, Some e)
            | Inr userIds \<Rightarrow>
           (case js_prop decryptedData ''payload'' of
              Inl e \<Rightarrow> (s1, Some e)
            | Inr None \<Rightarrow> (s1, Some TypeError)
            | Inr (Some p) \<Rightarrow>
           (case js_prop p ''elements'' of
              Inl e \<Rightarrow> (s1, Some e)
            | Inr elements \<Rightarrow>
           (case call_store E s1
                   \<lparr>sc_roomID = roomID, sc_elements = js_of_prop elements, sc_users = userIds,
                    sc_lastEditedUser = Val (user_id (user socketData)),
                    sc_jwtToken = Undefined\<rparr> of
              (SyncThrows, s2) \<Rightarrow> (s2, Some StoreError)
            | (_, s2) \<Rightarrow> (s2, None)))))))))"

text \<open>
  \<^verbatim>\<open>
  async serverVolatileBroadcastHandler(socket, roomID, encryptedData) {
    const payload = JSON.parse(Utils.convertArrayBufferToString(encryptedData))
    if (payload.type === 'MOUSE_LOCATION') {
      const socketData = await this.socketDataManager.getSocketData(socket.id)
      const eventData = {
        type: 'MOUSE_LOCATION',
        payload: { ...payload.payload, user: socketData.user },
      }
      socket.volatile.broadcast.to(roomID).emit('client-broadcast',
        Utils.convertStringToArrayBuffer(JSON.stringify(eventData)))
    }
  }
  \<close>
\<close>

definition serverVolatileBroadcastHandler ::
    "deps \<Rightarrow> state \<Rightarrow> socket_id \<Rightarrow> room_id \<Rightarrow> buffer \<Rightarrow> state \<times> fault option" where
  "serverVolatileBroadcastHandler E s sid roomID encryptedData =
     (case json_parse E encryptedData of
        None \<Rightarrow> (s, Some SyntaxError)
      | Some p \<Rightarrow>
     (case js_prop p ''type'' of
        Inl e \<Rightarrow> (s, Some e)
      | Inr ty \<Rightarrow>
          if ty = Some (JStr ''MOUSE_LOCATION'') then
            (case getSocketData s sid of
               None \<Rightarrow> (s, Some TypeError)
             | Some socketData \<Rightarrow>
            (case js_prop p ''payload'' of
               Inl e \<Rightarrow> (s, Some e)
             | Inr inner \<Rightarrow>
                 (let eventData =
                        JObj [(''type'', JStr ''MOUSE_LOCATION''),
                              (''payload'',
                               JObj (obj_set (spread inner) ''user''
                                       (json_of_user (user socketData))))]
                  in (emit s sid (broadcast_to s sid roomID)
                        (ClientBroadcast (json_render E eventData) None) True,
                      None))))
          else (s, None)))"

text \<open>
  \<^verbatim>\<open>
  async disconnectingHandler(socket) {
    const socketData = await this.socketDataManager.getSocketData(socket.id)
    console.log(`[${socketData.fileId}] ${socketData.user.name} has disconnected`)
    for (const roomID of socket.rooms) {
      if (roomID === socket.id) continue
      const otherUserSockets = await this.getOtherUserSockets(roomID, socket.id)
      if (otherUserSockets.length > 0) {
        socket.broadcast.to(roomID).emit('room-user-change', otherUserSockets)
      }
      const userSockets = await this.getUserSockets(roomID)
      const userIds = await Promise.all(userSockets.map(...))
      await this.roomDataManager.syncRoomData(roomID, null, userIds)
    }
  }
  \<close>
\<close>

text \<open>
  The body of the loop of \<open>disconnectingHandler\<close> over \<open>socket.rooms\<close>, the rooms
  still to visit as a list.
\<close>

fun disconnecting_rooms ::
    "deps \<Rightarrow> socket_id \<Rightarrow> room_id list \<Rightarrow> state \<Rightarrow> state \<times> fault option" where
  "disconnecting_rooms E sid [] s = (s, None)"
| "disconnecting_rooms E sid (roomID # rest) s =
     (if roomID = sid then disconnecting_rooms E sid rest s
      else
        (case getOtherUserSockets s roomID sid of
           Inl e \<Rightarrow> (s, Some e)
         | Inr otherUserSockets \<Rightarrow>
        (let s1 = (if length otherUserSockets > 0
                   then emit s sid (broadcast_to s sid roomID)
                          (RoomUserChange otherUserSockets) False
                   else s)
         in case getUserSockets s1 roomID of
              Inl e \<Rightarrow> (s1, Some e)
            | Inr userSockets \<Rightarrow>
           (case user_ids_of s1 userSockets of
              Inl e \<Rightarrow> (s1, Some e)
            | Inr userIds \<Rightarrow>
           (case call_store E s1
                   \<lparr>sc_roomID = roomID, sc_elements = Null, sc_users = userIds,
                    sc_lastEditedUser = Undefined, sc_jwtToken = Undefined\<rparr> of
              (SyncThrows, s2) \<Rightarrow> (s2, Some StoreError)
            | (_, s2) \<Rightarrow> disconnecting_rooms E sid rest s2)))))"

text \<open>
  The handler is an \<open>async\<close> function that the \<open>disconnecting\<close> listener calls without
  waiting for it. It runs up to its first \<open>await\<close>, the read of the session data, in the
  state \<open>s0\<close> in which it is called, and goes on from there in the state \<open>s\<close> it finds
  when it is resumed: \<open>socket.rooms\<close> is read then, when the loop starts.
\<close>

definition disconnectingHandler ::
    "deps \<Rightarrow> state \<Rightarrow> state \<Rightarrow> socket_id \<Rightarrow> state \<times> fault option" where
  "disconnectingHandler E s0 s sid =
     (case getSocketData s0 sid of
        None \<Rightarrow> (s, Some TypeError)
      | Some socketData \<Rightarrow> disconnecting_rooms E sid (socket_rooms s sid) s)"

section \<open>A connection's life as a sequence of events\<close>

text \<open>
  What the transport hands to the server: a handshake with the credential it carries, the
  three client events, and the close of a connection.
  \<^item> On an accepted handshake socket.io puts the socket into the room of its own id and
    fires \<open>connection\<close>. A rejected handshake is an error the middleware has caught.
  \<^item> On a close socket.io fires \<open>disconnecting\<close>, takes the socket out of all its rooms
    and fires \<open>disconnect\<close>, all in one go. \<open>disconnectingHandler\<close> has only reached
    its first \<open>await\<close> by then, and \<open>handleDisconnect\<close> has issued the removal of the
    session data; the former is resumed in the state that leaves.
  \<^item> The listeners do not wait for the promise of a handler. An error thrown inside one
    is an unhandled rejection, on which the process ends: \<open>handle\<close> returns it, and a
    \<open>run\<close> stops there, in the state reached.
\<close>

datatype event =
    Connect socket_id "jwt_token option"
  | JoinRoom socket_id room_id
  | ServerBroadcast socket_id room_id buffer "buffer option"
  | ServerVolatileBroadcast socket_id room_id buffer
  | Close socket_id

fun handle :: "deps \<Rightarrow> state \<Rightarrow> event \<Rightarrow> state \<times> fault option" where
  "handle E s (Connect sid tok) =
     (case socketAuthenticateHandler E s sid tok of
        (Some e, s1) \<Rightarrow> (s1, None)
      | (None, s1) \<Rightarrow> (handleConnection (socket_join s1 sid sid) sid, None))"
| "handle E s (JoinRoom sid roomID) = joinRoomHandler E s sid roomID"
| "handle E s (ServerBroadcast sid roomID encryptedData iv) =
     serverBroadcastHandler E s sid roomID encryptedData iv"
| "handle E s (ServerVolatileBroadcast sid roomID encryptedData) =
     serverVolatileBroadcastHandler E s sid roomID encryptedData"
| "handle E s (Close sid) =
     disconnectingHandler E s (handleDisconnect (socket_leaveAll s sid) sid) sid"

text \<open>The state an event leaves.\<close>

definition step :: "deps \<Rightarrow> state \<Rightarrow> event \<Rightarrow> state" where
  "step E s ev = fst (handle E s ev)"

fun run :: "deps \<Rightarrow> state \<Rightarrow> event list \<Rightarrow> state" where
  "run E s [] = s"
| "run E s (ev # evs) =
     (case handle E s ev of
        (s', None) \<Rightarrow> run E s' evs
      | (s', Some f) \<Rightarrow> s')"

section \<open>Observations on the trace\<close>

text \<open>
  A durable relay issued by socket \<open>sid\<close>: a \<open>client-broadcast\<close> emitted by its handler
  without \<open>socket.volatile\<close>.
\<close>

definition is_durable_relay :: "socket_id \<Rightarrow> emission \<Rightarrow> bool" where
  "is_durable_relay sid e \<longleftrightarrow>
     origin e = sid \<and> msg_name (payload e) = ''client-broadcast'' \<and> \<not> volatile e"

text \<open>The events that start or end the session of socket \<open>sid\<close>.\<close>

fun opens_or_closes :: "socket_id \<Rightarrow> event \<Rightarrow> bool" where
  "opens_or_closes sid (Connect x tok) = (x = sid)"
| "opens_or_closes sid (Close x) = (x = sid)"
| "opens_or_closes sid _ = False"

section \<open>A worked scenario\<close>

text \<open>
  Concrete collaborators and connections on which the theorems below are exercised.
  Alice's credential \<open>ta\<close> is read-only, Bob's \<open>tb\<close> may write, \<open>old\<close> has expired. The
  Room Store knows the room \<open>doc-42\<close> only. The renderer is a simplified JSON printer.
\<close>

fun demo_render :: "json \<Rightarrow> string" where
  "demo_render JNull = ''null''"
| "demo_render (JBool b) = (if b then ''true'' else ''false'')"
| "demo_render (JNum n) = (if n < 0 then ''-'' else []) @ string_of_nat (nat \<bar>n\<bar>)"
| "demo_render (JStr cs) = ''<'' @ cs @ ''>''"
| "demo_render (JArr xs) = ''['' @ concat (map (\<lambda>x. demo_render x @ '','') xs) @ '']''"
| "demo_render (JObj fs) =
     ''{'' @ concat (map (\<lambda>(k, v). k @ '':'' @ demo_render v @ '','') fs) @ ''}''"

definition alice :: session_data where
  "alice = \<lparr>user = \<lparr>user_id = ''alice'', user_name = ''Alice''\<rparr>, fileId = ''doc-42'',
            permissions = 1, token = Some ''ta''\<rparr>"

definition bob :: session_data where
  "bob = \<lparr>user = \<lparr>user_id = ''bob'', user_name = ''Bob''\<rparr>, fileId = ''doc-42'',
          permissions = 3, token = Some ''tb''\<rparr>"

definition demo_deps :: deps where
  "demo_deps =
     \<lparr>jwt_verify = (\<lambda>tok secret.
         if tok = ''ta'' then Inr alice
         else if tok = ''tb'' then Inr bob
         else if tok = ''old'' then Inl TokenExpiredError
         else Inl JsonWebTokenError),
      json_parse = (\<lambda>buf.
         if buf = ''mouse'' then
           Some (JObj [(''type'', JStr ''MOUSE_LOCATION''),
                       (''payload'', JObj [(''x'', JNum 3), (''user'', JStr ''mallory'')])])
         else if buf = ''scene'' then
           Some (JObj [(''type'', JStr ''SCENE_UPDATE''),
                       (''payload'', JObj [(''elements'', JArr [JNum 7])])])
         else None),
      json_render = demo_render,
      syncRoomData = (\<lambda>hist c.
         if sc_roomID c = ''doc-42'' then SyncRoom (JObj [(''elements'', JArr [])])
         else SyncNoRoom)\<rparr>"

definition init_state :: state where
  "init_state =
     \<lparr>joined = [], socketDataMap = (\<lambda>x. None), cachedTokens = (\<lambda>x. None),
      processEnv = [''JWT_SECRET_KEY'' \<mapsto> ''secret''],
      emitted = [], syncCalls = [], verifyCalls = []\<rparr>"

text \<open>Alice (socket \<open>a\<close>) and Bob (socket \<open>b\<close>) connect; Alice joins \<open>doc-42\<close>.\<close>

definition doc42_one_member :: state where
  "doc42_one_member =
     run demo_deps init_state
       [Connect ''a'' (Some ''ta''), Connect ''b'' (Some ''tb''), JoinRoom ''a'' ''doc-42'']"

text \<open>Then Bob joins \<open>doc-42\<close> as well.\<close>

definition doc42_state :: state where
  "doc42_state = step demo_deps doc42_one_member (JoinRoom ''b'' ''doc-42'')"

text \<open>Bob with two connections, \<open>b\<close> and \<open>b2\<close>, on the same credential; \<open>b\<close> joins \<open>doc-42\<close>.\<close>

definition two_tabs_one_joined :: state where
  "two_tabs_one_joined =
     run demo_deps init_state
       [Connect ''b'' (Some ''tb''), Connect ''b2'' (Some ''tb''), JoinRoom ''b'' ''doc-42'']"

section \<open>The shared secret\<close>

lemma hex_byte_length: "length (hex_byte w) = 2"
  by (simp add: hex_byte_def)

lemma toString_hex_length: "length (toString_hex bs) = 2 * length bs"
  by (induction bs) (simp_all add: toString_hex_def hex_byte_length)

lemma new_secret_length: "length (toString_hex (randomBytes rnd 32)) = 64"
  by (simp add: toString_hex_length randomBytes_def)

lemma new_secret_truthy: "truthy (Some (toString_hex (randomBytes rnd 32)))"
proof -
  have "toString_hex (randomBytes rnd 32) \<noteq> []"
    using new_secret_length [of rnd] by auto
  then show ?thesis by (simp add: truthy_def)
qed

lemma getOrCreate_sets_key:
  "truthy (snd (getOrCreateJwtSecretKey rnd env) ''JWT_SECRET_KEY'')"
  using new_secret_truthy [of rnd] by (simp add: getOrCreateJwtSecretKey_def Let_def)

lemma getOrCreate_returns_key:
  "fst (getOrCreateJwtSecretKey rnd env) =
     snd (getOrCreateJwtSecretKey rnd env) ''JWT_SECRET_KEY''"
  by (simp add: getOrCreateJwtSecretKey_def Let_def)

lemma getOrCreate_keeps_key:
  "truthy (env ''JWT_SECRET_KEY'') \<Longrightarrow>
     getOrCreateJwtSecretKey rnd env = (env ''JWT_SECRET_KEY'', env)"
  by (simp add: getOrCreateJwtSecretKey_def)

text \<open>
  Claim C9. \<open>getOrCreateJwtSecretKey\<close> is idempotent. Whatever the environment and the
  entropy, the first call returns a non-empty key \<open>k1\<close> and leaves \<open>JWT_SECRET_KEY\<close> set
  to it; every later call, whatever its entropy, returns \<open>k1\<close> and leaves the environment
  as it is; so a SharedTokenGenerator and an AppManager constructed afterwards both hold
  \<open>k1\<close>, and either constructor, when it makes the first call itself, holds \<open>k1\<close> too.
\<close>

theorem getOrCreateJwtSecretKey_idempotent:
  "(let (k1, env1) = getOrCreateJwtSecretKey rnd1 env in
      truthy k1 \<and> env1 ''JWT_SECRET_KEY'' = k1 \<and>
      getOrCreateJwtSecretKey rnd2 env1 = (k1, env1) \<and>
      SharedTokenGenerator_constructor rnd3 env1 = (\<lparr>SHARED_SECRET = k1\<rparr>, env1) \<and>
      JWT_SECRET_KEY (fst (AppManager_constructor rnd4 env1)) = k1 \<and>
      snd (AppManager_constructor rnd4 env1) = env1 \<and>
      SharedTokenGenerator_constructor rnd1 env = (\<lparr>SHARED_SECRET = k1\<rparr>, env1) \<and>
      JWT_SECRET_KEY (fst (AppManager_constructor rnd1 env)) = k1 \<and>
      snd (AppManager_constructor rnd1 env) = env1)"
proof -
  obtain k1 env1 where r: "getOrCreateJwtSecretKey rnd1 env = (k1, env1)"
    by (cases "getOrCreateJwtSecretKey rnd1 env")
  have k: "env1 ''JWT_SECRET_KEY'' = k1"
    using getOrCreate_returns_key [of rnd1 env] r by simp
  have t: "truthy (env1 ''JWT_SECRET_KEY'')"
    using getOrCreate_sets_key [of rnd1 env] r by simp
  have again: "getOrCreateJwtSecretKey rnd env1 = (k1, env1)" for rnd
    using getOrCreate_keeps_key [of env1 rnd] t k by simp
  show ?thesis
    using t k again
    by (simp add: r SharedTokenGenerator_constructor_def AppManager_constructor_def)
qed

section \<open>The metrics endpoint\<close>

lemma truthy_iff: "truthy v \<longleftrightarrow> v \<noteq> None \<and> v \<noteq> Some []"
  by (cases v) (simp_all add: truthy_def)

text \<open>
  Claim C10. The metrics handler answers 403 exactly when \<open>METRICS_TOKEN\<close> is unset or
  empty, or the token the request supplies is not that value. The token supplied is the
  second space-separated word of the Authorization header when there is such a word and
  it is not empty, and the \<open>token\<close> query parameter otherwise (no header, a header of one
  word, or an empty second word). With \<open>METRICS_TOKEN\<close> unset or empty every request gets
  403 \<open>Unauthorized\<close>; a request that does not get 403 gets the metrics with status 200.
\<close>

theorem metricsHandler_forbidden_iff:
  "(status (metricsHandler app reg req) = 403 \<longleftrightarrow>
      METRICS_TOKEN app = None \<or> METRICS_TOKEN app = Some [] \<or>
      (case authorization req of
         None \<Rightarrow> query_token req \<noteq> map_option QString (METRICS_TOKEN app)
       | Some h \<Rightarrow>
           (case split_on CHR '' '' h of
              a # p # rest \<Rightarrow>
                if p = [] then query_token req \<noteq> map_option QString (METRICS_TOKEN app)
                else Some p \<noteq> METRICS_TOKEN app
            | _ \<Rightarrow> query_token req \<noteq> map_option QString (METRICS_TOKEN app)))) \<and>
   (METRICS_TOKEN app = None \<or> METRICS_TOKEN app = Some [] \<longrightarrow>
      metricsHandler app reg req =
        \<lparr>status = 403, body = ''Unauthorized'', content_type = None\<rparr>) \<and>
   (status (metricsHandler app reg req) \<noteq> 403 \<longrightarrow>
      metricsHandler app reg req =
        \<lparr>status = 200, body = fst reg, content_type = Some (snd reg)\<rparr>)"
proof -
  have tok: "request_token req =
      (case authorization req of
         None \<Rightarrow> query_token req
       | Some h \<Rightarrow>
           (case split_on CHR '' '' h of
              a # p # rest \<Rightarrow> if p = [] then query_token req else Some (QString p)
            | _ \<Rightarrow> query_token req))"
    by (simp add: request_token_def bearer_part_def truthy_iff
             split: option.split list.split)
  show ?thesis
  proof (cases "METRICS_TOKEN app")
    case None
    then show ?thesis by (simp add: metricsHandler_def Let_def truthy_iff)
  next
    case (Some t)
    then show ?thesis
      by (auto simp: metricsHandler_def Let_def truthy_iff tok
               split: option.split list.split)
  qed
qed

text \<open>
  Five requests. No token configured: refused. With \<open>s3cret\<close> configured: accepted as
  bearer; accepted as query parameter when there is no header; accepted as query
  parameter when the header has one word only; refused when the bearer is wrong although
  the query parameter is right, since the header wins.
\<close>

theorem metricsHandler_forbidden_iff_witness:
  "status (metricsHandler \<lparr>METRICS_TOKEN = None, JWT_SECRET_KEY = Some ''k''\<rparr>
             (''m'', ''text/plain'')
             \<lparr>authorization = Some ''Bearer s3cret'', query_token = None\<rparr>) = 403 \<and>
   status (metricsHandler \<lparr>METRICS_TOKEN = Some ''s3cret'', JWT_SECRET_KEY = Some ''k''\<rparr>
             (''m'', ''text/plain'')
             \<lparr>authorization = Some ''Bearer s3cret'', query_token = None\<rparr>) = 200 \<and>
   status (metricsHandler \<lparr>METRICS_TOKEN = Some ''s3cret'', JWT_SECRET_KEY = Some ''k''\<rparr>
             (''m'', ''text/plain'')
             \<lparr>authorization = None, query_token = Some (QString ''s3cret'')\<rparr>) = 200 \<and>
   status (metricsHandler \<lparr>METRICS_TOKEN = Some ''s3cret'', JWT_SECRET_KEY = Some ''k''\<rparr>
             (''m'', ''text/plain'')
             \<lparr>authorization = Some ''Bearer'',
              query_token = Some (QString ''s3cret'')\<rparr>) = 200 \<and>
   status (metricsHandler \<lparr>METRICS_TOKEN = Some ''s3cret'', JWT_SECRET_KEY = Some ''k''\<rparr>
             (''m'', ''text/plain'')
             \<lparr>authorization = Some ''Bearer wrong'',
              query_token = Some (QString ''s3cret'')\<rparr>) = 403"
proof -
  let ?off = "\<lparr>METRICS_TOKEN = None, JWT_SECRET_KEY = Some ''k''\<rparr>"
  let ?on = "\<lparr>METRICS_TOKEN = Some ''s3cret'', JWT_SECRET_KEY = Some ''k''\<rparr>"
  let ?reg = "(''m'', ''text/plain'')"
  have unset:
    "status (metricsHandler ?off ?reg
               \<lparr>authorization = Some ''Bearer s3cret'', query_token = None\<rparr>) = 403"
    using metricsHandler_forbidden_iff
            [of ?off ?reg "\<lparr>authorization = Some ''Bearer s3cret'', query_token = None\<rparr>"]
    by simp
  have "metricsHandler ?on ?reg
          \<lparr>authorization = Some ''Bearer s3cret'', query_token = None\<rparr>
        = \<lparr>status = 200, body = ''m'', content_type = Some ''text/plain''\<rparr>"
    using metricsHandler_forbidden_iff
            [of ?on ?reg "\<lparr>authorization = Some ''Bearer s3cret'', query_token = None\<rparr>"]
    by simp
  then have bearer:
    "status (metricsHandler ?on ?reg
               \<lparr>authorization = Some ''Bearer s3cret'', query_token = None\<rparr>) = 200"
    by simp
  have "metricsHandler ?on ?reg
          \<lparr>authorization = None, query_token = Some (QString ''s3cret'')\<rparr>
        = \<lparr>status = 200, body = ''m'', content_type = Some ''text/plain''\<rparr>"
    using metricsHandler_forbidden_iff
            [of ?on ?reg "\<lparr>authorization = None, query_token = Some (QString ''s3cret'')\<rparr>"]
    by simp
  then have query:
    "status (metricsHandler ?on ?reg
               \<lparr>authorization = None, query_token = Some (QString ''s3cret'')\<rparr>) = 200"
    by simp
  have "metricsHandler ?on ?reg
          \<lparr>authorization = Some ''Bearer'', query_token = Some (QString ''s3cret'')\<rparr>
        = \<lparr>status = 200, body = ''m'', content_type = Some ''text/plain''\<rparr>"
    using metricsHandler_forbidden_iff
            [of ?on ?reg
                "\<lparr>authorization = Some ''Bearer'', query_token = Some (QString ''s3cret'')\<rparr>"]
    by simp
  then have fallback:
    "status (metricsHandler ?on ?reg
               \<lparr>authorization = Some ''Bearer'',
                query_token = Some (QString ''s3cret'')\<rparr>) = 200"
    by simp
  have differ:
    "status (metricsHandler ?on ?reg
               \<lparr>authorization = Some ''Bearer wrong'',
                query_token = Some (QString ''s3cret'')\<rparr>) = 403"
    using metricsHandler_forbidden_iff
            [of ?on ?reg
                "\<lparr>authorization = Some ''Bearer wrong'',
                  query_token = Some (QString ''s3cret'')\<rparr>"]
    by simp
  from unset bearer query fallback differ show ?thesis by simp
qed

section \<open>The credential cache\<close>

text \<open>
  Claim C5. On a credential that has an entry in the cache, \<open>verifyToken\<close> returns that
  entry and leaves the state as it is, whatever \<open>jwt.verify\<close> would answer: no call to
  it is recorded, so an expiry is not looked at. An entry that is in the cache after
  a call and was not before is the entry of the credential just verified, holding what
  \<open>jwt.verify\<close> decoded, and that call succeeded. On a miss \<open>jwt.verify\<close> is called once.
\<close>

theorem verifyToken_cache:
  "(cachedTokens s tok = Some d \<longrightarrow> verifyToken E s tok = (Inr d, s)) \<and>
   (cachedTokens (snd (verifyToken E s tok)) t' = Some d' \<and> cachedTokens s t' \<noteq> Some d' \<longrightarrow>
      t' = tok \<and> cachedTokens s tok = None \<and>
      jwt_verify E tok (processEnv s ''JWT_SECRET_KEY'') = Inr d' \<and>
      fst (verifyToken E s tok) = Inr d') \<and>
   (cachedTokens s tok = None \<longrightarrow>
      verifyCalls (snd (verifyToken E s tok)) = verifyCalls s @ [tok])"
  by (auto simp: verifyToken_def getCachedToken_def setCachedToken_def Let_def
           split: option.splits sum.splits if_splits)

text \<open>
  The expired credential \<open>old\<close>, once cached for Alice, is accepted although
  \<open>jwt.verify\<close> rejects it; Alice's fresh credential \<open>ta\<close> is verified and then cached.
\<close>

theorem verifyToken_cache_witness:
  "jwt_verify demo_deps ''old'' (Some ''secret'') = Inl TokenExpiredError \<and>
   verifyToken demo_deps (setCachedToken init_state ''old'' alice) ''old'' =
     (Inr alice, setCachedToken init_state ''old'' alice) \<and>
   cachedTokens (snd (verifyToken demo_deps init_state ''ta'')) ''ta'' = Some alice \<and>
   jwt_verify demo_deps ''ta'' (processEnv init_state ''JWT_SECRET_KEY'') = Inr alice \<and>
   verifyCalls (snd (verifyToken demo_deps init_state ''ta'')) = [''ta'']"
proof -
  have hit: "cachedTokens (setCachedToken init_state ''old'' alice) ''old'' = Some alice"
    by (simp add: setCachedToken_def)
  have miss: "cachedTokens init_state ''ta'' = None"
    by (simp add: init_state_def)
  have filled: "cachedTokens (snd (verifyToken demo_deps init_state ''ta'')) ''ta'' = Some alice"
    by (simp add: verifyToken_def getCachedToken_def setCachedToken_def init_state_def
                  demo_deps_def)
  have expired: "jwt_verify demo_deps ''old'' (Some ''secret'') = Inl TokenExpiredError"
    by (simp add: demo_deps_def)
  have a: "verifyToken demo_deps (setCachedToken init_state ''old'' alice) ''old'' =
             (Inr alice, setCachedToken init_state ''old'' alice)"
    using hit
    by (rule verifyToken_cache
               [where s = "setCachedToken init_state ''old'' alice" and tok = "''old''"
                  and d = alice and E = demo_deps, THEN conjunct1, rule_format])
  have fresh: "cachedTokens (snd (verifyToken demo_deps init_state ''ta'')) ''ta'' = Some alice \<and>
               cachedTokens init_state ''ta'' \<noteq> Some alice"
    using filled miss by simp
  have b: "jwt_verify demo_deps ''ta'' (processEnv init_state ''JWT_SECRET_KEY'') = Inr alice"
    using verifyToken_cache
            [where s = init_state and tok = "''ta''" and E = demo_deps and t' = "''ta''"
               and d' = alice, THEN conjunct2, THEN conjunct1, rule_format, OF fresh]
    by (rule conjunct2 [THEN conjunct2, THEN conjunct1])
  have c: "verifyCalls (snd (verifyToken demo_deps init_state ''ta'')) =
             verifyCalls init_state @ [''ta'']"
    using miss
    by (rule verifyToken_cache
               [where s = init_state and tok = "''ta''" and E = demo_deps,
                THEN conjunct2, THEN conjunct2, rule_format])
  from c have "verifyCalls (snd (verifyToken demo_deps init_state ''ta'')) = [''ta'']"
    by (simp add: init_state_def)
  with expired a filled b show ?thesis by simp
qed

section \<open>What the handlers leave unchanged\<close>

lemma emitted_emit [simp]:
  "emitted (emit s sid rc m vol) =
     emitted s @ [\<lparr>origin = sid, recipients = rc, payload = m, volatile = vol\<rparr>]"
  by (simp add: emit_def)

lemma emit_frame [simp]:
  "socketDataMap (emit s sid rc m vol) = socketDataMap s"
  "joined (emit s sid rc m vol) = joined s"
  "syncCalls (emit s sid rc m vol) = syncCalls s"
  by (simp_all add: emit_def)

lemma call_store_frame [simp]:
  "emitted (snd (call_store E s c)) = emitted s"
  "socketDataMap (snd (call_store E s c)) = socketDataMap s"
  "joined (snd (call_store E s c)) = joined s"
  "syncCalls (snd (call_store E s c)) = syncCalls s @ [c]"
  "fst (call_store E s c) = syncRoomData E (syncCalls s) c"
  by (simp_all add: call_store_def)

lemma socket_join_frame [simp]:
  "emitted (socket_join s sid r) = emitted s"
  "socketDataMap (socket_join s sid r) = socketDataMap s"
  "syncCalls (socket_join s sid r) = syncCalls s"
  by (simp_all add: socket_join_def)

lemma fetchSockets_cong:
  "joined s' = joined s \<Longrightarrow> fetchSockets s' r = fetchSockets s r"
  by (simp add: fetchSockets_def)

lemma fetchSockets_socket_join:
  "fetchSockets (socket_join s sid r) r =
     (if sid \<in> set (fetchSockets s r) then fetchSockets s r else fetchSockets s r @ [sid])"
  by (auto simp: fetchSockets_def socket_join_def image_iff)

lemma user_sockets_of_cong:
  "socketDataMap s' = socketDataMap s \<Longrightarrow> user_sockets_of s' xs = user_sockets_of s xs"
  by (induction xs) (simp_all add: getSocketData_def split: option.split)

lemma user_ids_of_cong:
  "socketDataMap s' = socketDataMap s \<Longrightarrow> user_ids_of s' us = user_ids_of s us"
  by (induction us) (simp_all add: getSocketData_def split: option.split)

lemma is_durable_relay_simps [simp]:
  "is_durable_relay x \<lparr>origin = a, recipients = rc, payload = InitRoom, volatile = v\<rparr> = False"
  "is_durable_relay x \<lparr>origin = a, recipients = rc, payload = ReadOnly, volatile = v\<rparr> = False"
  "is_durable_relay x \<lparr>origin = a, recipients = rc, payload = JoinedData b, volatile = v\<rparr> = False"
  "is_durable_relay x \<lparr>origin = a, recipients = rc, payload = RoomNotFound, volatile = v\<rparr> = False"
  "is_durable_relay x \<lparr>origin = a, recipients = rc, payload = RoomUserChange us, volatile = v\<rparr> = False"
  "is_durable_relay x \<lparr>origin = a, recipients = rc, payload = m, volatile = True\<rparr> = False"
  "a \<noteq> x \<Longrightarrow> is_durable_relay x \<lparr>origin = a, recipients = rc, payload = m, volatile = v\<rparr> = False"
  by (simp_all add: is_durable_relay_def)

lemma joinRoomHandler_socketData:
  "socketDataMap (fst (joinRoomHandler E s sid roomID)) = socketDataMap s"
  by (simp add: joinRoomHandler_def Let_def case_prod_beta
           split: option.split sum.split sync_result.split)

lemma joinRoomHandler_no_relay:
  "filter (is_durable_relay x) (emitted (fst (joinRoomHandler E s sid roomID))) =
   filter (is_durable_relay x) (emitted s)"
  by (simp add: joinRoomHandler_def Let_def case_prod_beta
           split: option.split sum.split sync_result.split)

lemma serverBroadcastHandler_socketData:
  "socketDataMap (fst (serverBroadcastHandler E s sid roomID buf iv)) = socketDataMap s"
  by (simp add: serverBroadcastHandler_def Let_def case_prod_beta
           split: option.split sum.split sync_result.split)

lemma serverBroadcastHandler_origin:
  "x \<noteq> sid \<Longrightarrow>
   filter (is_durable_relay x) (emitted (fst (serverBroadcastHandler E s sid roomID buf iv))) =
   filter (is_durable_relay x) (emitted s)"
  by (simp add: serverBroadcastHandler_def Let_def case_prod_beta
           split: option.split sum.split sync_result.split)

lemma serverVolatileBroadcastHandler_socketData:
  "socketDataMap (fst (serverVolatileBroadcastHandler E s sid roomID buf)) = socketDataMap s"
  by (simp add: serverVolatileBroadcastHandler_def Let_def
           split: option.split sum.split)

lemma serverVolatileBroadcastHandler_no_durable:
  "filter (is_durable_relay x) (emitted (fst (serverVolatileBroadcastHandler E s sid roomID buf))) =
   filter (is_durable_relay x) (emitted s)"
  by (simp add: serverVolatileBroadcastHandler_def Let_def
           split: option.split sum.split)

lemma disconnecting_rooms_socketData:
  "socketDataMap (fst (disconnecting_rooms E sid rooms s)) = socketDataMap s"
proof (induction rooms arbitrary: s)
  case Nil
  show ?case by simp
next
  case (Cons r rooms)
  show ?case
    by (simp add: Cons.IH Let_def case_prod_beta
             split: option.split sum.split sync_result.split)
qed

lemma disconnecting_rooms_no_relay:
  "filter (is_durable_relay x) (emitted (fst (disconnecting_rooms E sid rooms s))) =
   filter (is_durable_relay x) (emitted s)"
proof (induction rooms arbitrary: s)
  case Nil
  show ?case by simp
next
  case (Cons r rooms)
  show ?case
    by (simp add: Cons.IH Let_def case_prod_beta
             split: option.split sum.split sync_result.split)
qed

lemma disconnectingHandler_socketData:
  "socketDataMap (fst (disconnectingHandler E s0 s sid)) = socketDataMap s"
  by (simp add: disconnectingHandler_def disconnecting_rooms_socketData split: option.splits)

lemma disconnectingHandler_no_relay:
  "filter (is_durable_relay x) (emitted (fst (disconnectingHandler E s0 s sid))) =
   filter (is_durable_relay x) (emitted s)"
  by (simp add: disconnectingHandler_def disconnecting_rooms_no_relay split: option.splits)

text \<open>
  When a connection closes, its socket is in no room by the time the loop of
  \<open>disconnectingHandler\<close> starts: the loop body is never run.
\<close>

lemma socket_rooms_after_leave:
  "socket_rooms (handleDisconnect (socket_leaveAll s sid) sid) sid = []"
  by (auto simp: socket_rooms_def handleDisconnect_def deleteSocketData_def
                 socket_leaveAll_def filter_empty_conv)

lemma handle_Close:
  "handle E s (Close sid) =
     (handleDisconnect (socket_leaveAll s sid) sid,
      case socketDataMap s sid of None \<Rightarrow> Some TypeError | Some d \<Rightarrow> None)"
  by (simp add: disconnectingHandler_def socket_rooms_after_leave getSocketData_def
           split: option.split)

lemma close_emits_nothing:
  "emitted (step E s (Close sid)) = emitted s \<and>
   syncCalls (step E s (Close sid)) = syncCalls s"
  by (simp add: step_def handle_Close handleDisconnect_def deleteSocketData_def
                socket_leaveAll_def del: handle.simps)

lemma verifyToken_frame:
  "socketDataMap (snd (verifyToken E s tok)) = socketDataMap s \<and>
   emitted (snd (verifyToken E s tok)) = emitted s \<and>
   joined (snd (verifyToken E s tok)) = joined s \<and>
   syncCalls (snd (verifyToken E s tok)) = syncCalls s"
  by (simp add: verifyToken_def getCachedToken_def setCachedToken_def Let_def
           split: option.splits sum.splits)

lemma connect_socketData:
  "x \<noteq> sid \<Longrightarrow> socketDataMap (step E s (Connect sid tok)) x = socketDataMap s x"
  using verifyToken_frame [of E s]
  by (simp add: step_def socketAuthenticateHandler_def setSocketData_def handleConnection_def
                Let_def case_prod_beta
           split: option.split sum.split)

lemma connect_no_relay:
  "filter (is_durable_relay x) (emitted (step E s (Connect sid tok))) =
   filter (is_durable_relay x) (emitted s)"
  using verifyToken_frame [of E s]
  by (simp add: step_def socketAuthenticateHandler_def setSocketData_def handleConnection_def
                Let_def case_prod_beta
           split: option.split sum.split)

lemma step_socketData:
  "\<not> opens_or_closes sid ev \<Longrightarrow> socketDataMap (step E s ev) sid = socketDataMap s sid"
proof (cases ev)
  case (Connect x tok)
  assume "\<not> opens_or_closes sid ev"
  with Connect have "sid \<noteq> x" by simp
  then show ?thesis unfolding Connect by (rule connect_socketData)
next
  case (Close x)
  assume "\<not> opens_or_closes sid ev"
  with Close have "sid \<noteq> x" by simp
  then show ?thesis
    by (simp add: Close step_def handle_Close handleDisconnect_def deleteSocketData_def
                  socket_leaveAll_def del: handle.simps)
qed (simp_all add: step_def joinRoomHandler_socketData serverBroadcastHandler_socketData
                   serverVolatileBroadcastHandler_socketData)

lemma step_no_durable_relay:
  assumes "socketDataMap s sid = Some d" and "permissions d = 1"
  shows "filter (is_durable_relay sid) (emitted (step E s ev)) =
         filter (is_durable_relay sid) (emitted s)"
proof (cases ev)
  case (Connect x tok)
  show ?thesis unfolding Connect by (rule connect_no_relay)
next
  case (JoinRoom x r)
  show ?thesis by (simp add: JoinRoom step_def joinRoomHandler_no_relay)
next
  case (ServerBroadcast x r buf iv)
  show ?thesis
  proof (cases "x = sid")
    case True
    have "serverBroadcastHandler E s sid r buf iv = (s, None)"
      using assms by (simp add: serverBroadcastHandler_def isSocketReadOnly_def getSocketData_def)
    then show ?thesis by (simp add: ServerBroadcast True step_def)
  next
    case False
    then show ?thesis by (simp add: ServerBroadcast step_def serverBroadcastHandler_origin)
  qed
next
  case (ServerVolatileBroadcast x r buf)
  show ?thesis
    by (simp add: ServerVolatileBroadcast step_def serverVolatileBroadcastHandler_no_durable)
next
  case (Close x)
  show ?thesis by (simp add: Close close_emits_nothing)
qed

section \<open>The worked scenario, evaluated\<close>

lemmas scenario_defs =
  doc42_state_def doc42_one_member_def two_tabs_one_joined_def demo_deps_def init_state_def
  alice_def bob_def

lemmas handler_defs =
  socketAuthenticateHandler_def verifyToken_def getCachedToken_def setCachedToken_def
  setSocketData_def getSocketData_def deleteSocketData_def handleConnection_def
  handleDisconnect_def socket_join_def socket_leaveAll_def emit_def to_self_def io_in_def
  broadcast_to_def fetchSockets_def socket_rooms_def joinRoomHandler_def getUserSockets_def
  getOtherUserSockets_def call_store_def serverBroadcastHandler_def
  serverVolatileBroadcastHandler_def disconnectingHandler_def isSocketReadOnly_def
  json_of_user_def step_def Let_def

lemma doc42_one_member_joined:
  "joined doc42_one_member = [(''a'', ''a''), (''b'', ''b''), (''a'', ''doc-42'')]"
  by (simp add: scenario_defs handler_defs)

lemma doc42_one_member_data:
  "socketDataMap doc42_one_member ''a'' = Some alice"
  "socketDataMap doc42_one_member ''b'' = Some bob"
  by (simp_all add: scenario_defs handler_defs)

lemma doc42_state_joined:
  "joined doc42_state =
     [(''a'', ''a''), (''b'', ''b''), (''a'', ''doc-42''), (''b'', ''doc-42'')]"
  by (simp add: scenario_defs handler_defs)

lemma doc42_state_data:
  "socketDataMap doc42_state ''a'' = Some alice"
  "socketDataMap doc42_state ''b'' = Some bob"
  by (simp_all add: scenario_defs handler_defs)

lemma doc42_state_members:
  "fetchSockets doc42_state ''doc-42'' = [''a'', ''b'']"
  "socket_rooms doc42_state ''a'' = [''a'', ''doc-42'']"
  "socket_rooms doc42_state ''b'' = [''b'', ''doc-42'']"
  by (simp_all add: fetchSockets_def socket_rooms_def doc42_state_joined)

lemma doc42_state_no_relay_yet:
  "filter (is_durable_relay ''a'') (emitted doc42_state) = []"
  by (simp add: scenario_defs handler_defs)

section \<open>Durable broadcasts\<close>

text \<open>
  Claim C6. A durable broadcast whose sender is read-only (its SessionData has permission
  level 1) or is not in the target room does nothing: the handler returns the state it
  was given, with no emit to anyone, no Room Store call, and no error.
\<close>

theorem serverBroadcastHandler_noop:
  "(\<exists>d. socketDataMap s sid = Some d \<and> permissions d = 1) \<or>
   roomID \<notin> set (socket_rooms s sid)
   \<Longrightarrow> serverBroadcastHandler E s sid roomID encryptedData iv = (s, None)"
  by (auto simp: serverBroadcastHandler_def isSocketReadOnly_def getSocketData_def)

text \<open>Read-only Alice in \<open>doc-42\<close>, and Bob broadcasting into a room he never joined.\<close>

theorem serverBroadcastHandler_noop_witness:
  "serverBroadcastHandler demo_deps doc42_state ''a'' ''doc-42'' ''scene'' (Some ''iv'') =
     (doc42_state, None) \<and>
   serverBroadcastHandler demo_deps doc42_state ''b'' ''other'' ''scene'' (Some ''iv'') =
     (doc42_state, None)"
proof -
  have ro: "(\<exists>d. socketDataMap doc42_state ''a'' = Some d \<and> permissions d = 1) \<or>
            ''doc-42'' \<notin> set (socket_rooms doc42_state ''a'')"
    by (simp add: doc42_state_data alice_def)
  have out: "(\<exists>d. socketDataMap doc42_state ''b'' = Some d \<and> permissions d = 1) \<or>
             ''other'' \<notin> set (socket_rooms doc42_state ''b'')"
    by (simp add: doc42_state_members)
  from serverBroadcastHandler_noop [OF ro] serverBroadcastHandler_noop [OF out]
  show ?thesis by simp
qed

text \<open>
  Claim C7. A durable broadcast that is relayed (the sender is in the room and is not
  read-only) adds exactly one emit: \<open>client-broadcast\<close> to the other sockets of the room,
  carrying the \<open>encryptedData\<close> and \<open>iv\<close> it was given, unchanged, whatever happens
  afterwards while the payload is decoded and stored.
\<close>

theorem serverBroadcastHandler_relays_verbatim:
  "roomID \<in> set (socket_rooms s sid) \<Longrightarrow>
   \<not> (\<exists>d. socketDataMap s sid = Some d \<and> permissions d = 1) \<Longrightarrow>
   emitted (fst (serverBroadcastHandler E s sid roomID encryptedData iv)) =
     emitted s @ [\<lparr>origin = sid,
                   recipients = filter (\<lambda>x. x \<noteq> sid) (fetchSockets s roomID),
                   payload = ClientBroadcast encryptedData iv,
                   volatile = False\<rparr>]"
  by (simp add: serverBroadcastHandler_def isSocketReadOnly_def getSocketData_def Let_def
                broadcast_to_def case_prod_beta
           split: option.split sum.split sync_result.split)

text \<open>Bob's broadcast in \<open>doc-42\<close> reaches Alice as he sent it.\<close>

theorem serverBroadcastHandler_relays_verbatim_witness:
  "emitted (fst (serverBroadcastHandler demo_deps doc42_state ''b'' ''doc-42'' ''scene''
                   (Some ''iv''))) =
     emitted doc42_state @
       [\<lparr>origin = ''b'', recipients = [''a''],
         payload = ClientBroadcast ''scene'' (Some ''iv''), volatile = False\<rparr>]"
proof -
  have member: "''doc-42'' \<in> set (socket_rooms doc42_state ''b'')"
    by (simp add: doc42_state_members)
  have writer: "\<not> (\<exists>d. socketDataMap doc42_state ''b'' = Some d \<and> permissions d = 1)"
    by (simp add: doc42_state_data bob_def)
  from serverBroadcastHandler_relays_verbatim [OF member writer, of demo_deps "''scene''" "Some ''iv''"]
  show ?thesis by (simp add: doc42_state_members)
qed

section \<open>Volatile broadcasts\<close>

lemma map_of_obj_set: "map_of (obj_set fs k v) k' = (if k' = k then Some v else map_of fs k')"
  by (induction fs) auto

lemma js_prop_Some_iff:
  "js_prop p k = Inr (Some v) \<longleftrightarrow> (\<exists>fs. p = JObj fs \<and> map_of fs k = Some v)"
  by (cases p) auto

text \<open>
  Claim C8. For a volatile broadcast from a socket that has session data: something is
  emitted if and only if the decoded payload is an object whose \<open>type\<close> is
  \<open>MOUSE_LOCATION\<close>. In that case the handler emits one volatile \<open>client-broadcast\<close> to the
  other sockets of the room; the event it carries has type \<open>MOUSE_LOCATION\<close> and the
  properties of the decoded \<open>payload\<close>, except that \<open>user\<close> is the sender's stored
  identity. Otherwise the state is left as it was. The Room Store is never called. A
  payload that decodes to anything but \<open>null\<close> and is not of that type is dropped
  without an error.
\<close>

theorem serverVolatileBroadcastHandler_relay:
  assumes "socketDataMap s sid = Some d"
  shows
   "(emitted (fst (serverVolatileBroadcastHandler E s sid roomID buf)) \<noteq> emitted s \<longleftrightarrow>
       (\<exists>fs. json_parse E buf = Some (JObj fs) \<and>
             map_of fs ''type'' = Some (JStr ''MOUSE_LOCATION''))) \<and>
    (\<forall>fs. json_parse E buf = Some (JObj fs) \<and>
          map_of fs ''type'' = Some (JStr ''MOUSE_LOCATION'') \<longrightarrow>
       (let body = obj_set (spread (map_of fs ''payload'')) ''user'' (json_of_user (user d))
        in serverVolatileBroadcastHandler E s sid roomID buf =
             (s\<lparr>emitted := emitted s @
                  [\<lparr>origin = sid,
                    recipients = filter (\<lambda>x. x \<noteq> sid) (fetchSockets s roomID),
                    payload = ClientBroadcast
                      (json_render E (JObj [(''type'', JStr ''MOUSE_LOCATION''),
                                            (''payload'', JObj body)])) None,
                    volatile = True\<rparr>]\<rparr>, None) \<and>
           map_of body ''user'' = Some (json_of_user (user d)) \<and>
           (\<forall>k. k \<noteq> ''user'' \<longrightarrow>
                map_of body k = map_of (spread (map_of fs ''payload'')) k))) \<and>
    (\<not> (\<exists>fs. json_parse E buf = Some (JObj fs) \<and>
             map_of fs ''type'' = Some (JStr ''MOUSE_LOCATION'')) \<longrightarrow>
       fst (serverVolatileBroadcastHandler E s sid roomID buf) = s) \<and>
    syncCalls (fst (serverVolatileBroadcastHandler E s sid roomID buf)) = syncCalls s \<and>
    (\<forall>p. json_parse E buf = Some p \<and> p \<noteq> JNull \<and>
         \<not> (\<exists>fs. p = JObj fs \<and> map_of fs ''type'' = Some (JStr ''MOUSE_LOCATION'')) \<longrightarrow>
       serverVolatileBroadcastHandler E s sid roomID buf = (s, None))"
proof -
  let ?H = "serverVolatileBroadcastHandler E s sid roomID buf"
  let ?mouse = "\<exists>fs. json_parse E buf = Some (JObj fs) \<and>
                     map_of fs ''type'' = Some (JStr ''MOUSE_LOCATION'')"
  have relay: "?H =
      (s\<lparr>emitted := emitted s @
           [\<lparr>origin = sid,
             recipients = filter (\<lambda>x. x \<noteq> sid) (fetchSockets s roomID),
             payload = ClientBroadcast
               (json_render E
                  (JObj [(''type'', JStr ''MOUSE_LOCATION''),
                         (''payload'',
                          JObj (obj_set (spread (map_of fs ''payload'')) ''user''
                                  (json_of_user (user d))))])) None,
             volatile = True\<rparr>]\<rparr>, None)"
    if "json_parse E buf = Some (JObj fs)"
       "map_of fs ''type'' = Some (JStr ''MOUSE_LOCATION'')" for fs
    using that assms
    by (simp add: serverVolatileBroadcastHandler_def getSocketData_def emit_def broadcast_to_def)
  have drop: "fst ?H = s" if "\<not> ?mouse"
    using that
    by (auto simp: serverVolatileBroadcastHandler_def js_prop_Some_iff
             split: option.splits sum.splits)
  have iff: "emitted (fst ?H) \<noteq> emitted s \<longleftrightarrow> ?mouse"
  proof
    assume changed: "emitted (fst ?H) \<noteq> emitted s"
    show ?mouse
    proof (rule ccontr)
      assume "\<not> ?mouse"
      then have "fst ?H = s" by (rule drop)
      with changed show False by simp
    qed
  next
    assume ?mouse
    then obtain fs where "json_parse E buf = Some (JObj fs)"
      "map_of fs ''type'' = Some (JStr ''MOUSE_LOCATION'')" by blast
    from relay [OF this] show "emitted (fst ?H) \<noteq> emitted s" by simp
  qed
  have calls: "syncCalls (fst ?H) = syncCalls s"
  proof (cases ?mouse)
    case True
    then obtain fs where "json_parse E buf = Some (JObj fs)"
      "map_of fs ''type'' = Some (JStr ''MOUSE_LOCATION'')" by blast
    from relay [OF this] show ?thesis by simp
  next
    case False
    with drop show ?thesis by simp
  qed
  have body: "\<forall>fs. json_parse E buf = Some (JObj fs) \<and>
          map_of fs ''type'' = Some (JStr ''MOUSE_LOCATION'') \<longrightarrow>
       (let body = obj_set (spread (map_of fs ''payload'')) ''user'' (json_of_user (user d))
        in ?H =
             (s\<lparr>emitted := emitted s @
                  [\<lparr>origin = sid,
                    recipients = filter (\<lambda>x. x \<noteq> sid) (fetchSockets s roomID),
                    payload = ClientBroadcast
                      (json_render E (JObj [(''type'', JStr ''MOUSE_LOCATION''),
                                            (''payload'', JObj body)])) None,
                    volatile = True\<rparr>]\<rparr>, None) \<and>
           map_of body ''user'' = Some (json_of_user (user d)) \<and>
           (\<forall>k. k \<noteq> ''user'' \<longrightarrow>
                map_of body k = map_of (spread (map_of fs ''payload'')) k))"
    using relay by (simp add: Let_def map_of_obj_set)
  have other: "\<forall>p. json_parse E buf = Some p \<and> p \<noteq> JNull \<and>
         \<not> (\<exists>fs. p = JObj fs \<and> map_of fs ''type'' = Some (JStr ''MOUSE_LOCATION'')) \<longrightarrow>
       ?H = (s, None)"
  proof (intro allI impI, elim conjE)
    fix p
    assume "json_parse E buf = Some p" "p \<noteq> JNull"
       "\<not> (\<exists>fs. p = JObj fs \<and> map_of fs ''type'' = Some (JStr ''MOUSE_LOCATION''))"
    then show "?H = (s, None)"
      by (cases p) (simp_all add: serverVolatileBroadcastHandler_def)
  qed
  from iff body drop calls other show ?thesis by (intro conjI impI) assumption+
qed

lemma demo_parse_mouse:
  "json_parse demo_deps ''mouse'' =
     Some (JObj [(''type'', JStr ''MOUSE_LOCATION''),
                 (''payload'', JObj [(''x'', JNum 3), (''user'', JStr ''mallory'')])])"
  by (simp add: demo_deps_def)

lemma demo_parse_scene:
  "\<not> (\<exists>fs. json_parse demo_deps ''scene'' = Some (JObj fs) \<and>
            map_of fs ''type'' = Some (JStr ''MOUSE_LOCATION''))"
  by (simp add: demo_deps_def)

lemma string_of_nat_3: "string_of_nat 3 = ''3''"
  by code_simp

lemma demo_render_mouse:
  "json_render demo_deps
     (JObj [(''type'', JStr ''MOUSE_LOCATION''),
            (''payload'', JObj [(''x'', JNum 3), (''user'', json_of_user u)])]) =
   ''{type:<MOUSE_LOCATION>,payload:{x:3,user:{id:<'' @ user_id u @ ''>,name:<'' @
     user_name u @ ''>,},},}''"
  by (simp add: demo_deps_def json_of_user_def string_of_nat_3)

text \<open>
  Bob's pointer position, sent with the forged user \<open>mallory\<close>, reaches Alice under
  Bob's identity; his volatile \<open>scene\<close> message is dropped.
\<close>

theorem serverVolatileBroadcastHandler_relay_witness:
  "serverVolatileBroadcastHandler demo_deps doc42_state ''b'' ''doc-42'' ''mouse'' =
     (doc42_state\<lparr>emitted := emitted doc42_state @
        [\<lparr>origin = ''b'', recipients = [''a''],
          payload = ClientBroadcast
            ''{type:<MOUSE_LOCATION>,payload:{x:3,user:{id:<bob>,name:<Bob>,},},}'' None,
          volatile = True\<rparr>]\<rparr>, None) \<and>
   fst (serverVolatileBroadcastHandler demo_deps doc42_state ''b'' ''doc-42'' ''scene'') =
     doc42_state \<and>
   serverVolatileBroadcastHandler demo_deps doc42_state ''b'' ''doc-42'' ''scene'' =
     (doc42_state, None)"
proof -
  note inst = serverVolatileBroadcastHandler_relay
               [OF doc42_state_data(2), where E = demo_deps and roomID = "''doc-42''"]
  have mouse: "json_parse demo_deps ''mouse'' =
                 Some (JObj [(''type'', JStr ''MOUSE_LOCATION''),
                             (''payload'', JObj [(''x'', JNum 3), (''user'', JStr ''mallory'')])]) \<and>
               map_of [(''type'', JStr ''MOUSE_LOCATION''),
                       (''payload'', JObj [(''x'', JNum 3), (''user'', JStr ''mallory'')])]
                 ''type'' = Some (JStr ''MOUSE_LOCATION'')"
    by (simp add: demo_parse_mouse)
  from inst [where buf = "''mouse''", THEN conjunct2, THEN conjunct1, rule_format, OF mouse]
  have a: "serverVolatileBroadcastHandler demo_deps doc42_state ''b'' ''doc-42'' ''mouse'' =
     (doc42_state\<lparr>emitted := emitted doc42_state @
        [\<lparr>origin = ''b'', recipients = [''a''],
          payload = ClientBroadcast
            ''{type:<MOUSE_LOCATION>,payload:{x:3,user:{id:<bob>,name:<Bob>,},},}'' None,
          volatile = True\<rparr>]\<rparr>, None)"
    by (simp add: Let_def doc42_state_members demo_render_mouse bob_def)
  from inst [where buf = "''scene''", THEN conjunct2, THEN conjunct2, THEN conjunct1,
            rule_format, OF demo_parse_scene]
  have b: "fst (serverVolatileBroadcastHandler demo_deps doc42_state ''b'' ''doc-42'' ''scene'') =
             doc42_state" .
  have scene: "json_parse demo_deps ''scene'' =
                 Some (JObj [(''type'', JStr ''SCENE_UPDATE''),
                             (''payload'', JObj [(''elements'', JArr [JNum 7])])]) \<and>
               JObj [(''type'', JStr ''SCENE_UPDATE''),
                     (''payload'', JObj [(''elements'', JArr [JNum 7])])] \<noteq> JNull \<and>
               \<not> (\<exists>fs. JObj [(''type'', JStr ''SCENE_UPDATE''),
                              (''payload'', JObj [(''elements'', JArr [JNum 7])])] = JObj fs \<and>
                        map_of fs ''type'' = Some (JStr ''MOUSE_LOCATION''))"
    by (simp add: demo_deps_def)
  from inst [where buf = "''scene''", THEN conjunct2, THEN conjunct2, THEN conjunct2,
            THEN conjunct2, rule_format, OF scene]
  have c: "serverVolatileBroadcastHandler demo_deps doc42_state ''b'' ''doc-42'' ''scene'' =
             (doc42_state, None)" .
  from a b c show ?thesis by simp
qed

section \<open>Read-only connections\<close>

text \<open>
  Claim C1, as stated, fails for volatile broadcasts: the volatile handler does not look at
  the permission level. Alice is read-only (permission level 1), and her pointer position
  is relayed to Bob.
\<close>

theorem read_only_volatile_relay_counterexample:
  "map_option permissions (socketDataMap doc42_state ''a'') = Some 1 \<and>
   emitted (step demo_deps doc42_state (ServerVolatileBroadcast ''a'' ''doc-42'' ''mouse'')) =
     emitted doc42_state @
       [\<lparr>origin = ''a'', recipients = [''b''],
         payload = ClientBroadcast
           ''{type:<MOUSE_LOCATION>,payload:{x:3,user:{id:<alice>,name:<Alice>,},},}'' None,
         volatile = True\<rparr>]"
  by (simp add: step_def doc42_state_data doc42_state_members
                serverVolatileBroadcastHandler_def demo_parse_mouse getSocketData_def
                broadcast_to_def demo_render_mouse alice_def)

text \<open>
  Claim C1 (amended). For a connection whose SessionData has permission level 1, no
  durable broadcast it issues is ever relayed, whatever it and the other connections do
  and however often, for as long as its session lasts: over any sequence of events that
  does not open or close that connection, the durable relays issued by it stay what they
  were.
\<close>

theorem read_only_never_relays_durable:
  "socketDataMap s sid = Some d \<Longrightarrow> permissions d = 1 \<Longrightarrow>
   \<forall>ev \<in> set evs. \<not> opens_or_closes sid ev \<Longrightarrow>
   filter (is_durable_relay sid) (emitted (run E s evs)) =
   filter (is_durable_relay sid) (emitted s)"
proof (induction evs arbitrary: s)
  case Nil
  show ?case by simp
next
  case (Cons ev evs)
  from Cons.prems have keep: "socketDataMap (step E s ev) sid = Some d"
    by (simp add: step_socketData)
  from Cons.prems have rest: "\<forall>e \<in> set evs. \<not> opens_or_closes sid e" by simp
  have stepped: "filter (is_durable_relay sid) (emitted (step E s ev)) =
                 filter (is_durable_relay sid) (emitted s)"
    using Cons.prems(1,2) by (rule step_no_durable_relay)
  show ?case
  proof (cases "snd (handle E s ev)")
    case None
    then have "run E s (ev # evs) = run E (step E s ev) evs"
      by (simp add: step_def case_prod_beta)
    moreover have "filter (is_durable_relay sid) (emitted (run E (step E s ev) evs)) =
                   filter (is_durable_relay sid) (emitted (step E s ev))"
      using keep Cons.prems(2) rest by (rule Cons.IH)
    ultimately show ?thesis using stepped by simp
  next
    case (Some f)
    then have "run E s (ev # evs) = step E s ev"
      by (simp add: step_def case_prod_beta)
    with stepped show ?thesis by simp
  qed
qed

text \<open>
  Alice tries twice, joins another room and tries there, while Bob broadcasts and leaves:
  nothing of hers is relayed durably.
\<close>

theorem read_only_never_relays_durable_witness:
  "socketDataMap doc42_state ''a'' = Some alice \<and> permissions alice = 1 \<and>
   filter (is_durable_relay ''a'')
     (emitted (run demo_deps doc42_state
        [ServerBroadcast ''a'' ''doc-42'' ''scene'' (Some ''iv''),
         ServerBroadcast ''a'' ''doc-42'' ''scene'' None,
         ServerBroadcast ''b'' ''doc-42'' ''scene'' (Some ''iv''),
         JoinRoom ''a'' ''other'',
         ServerBroadcast ''a'' ''other'' ''scene'' (Some ''iv''),
         Close ''b''])) = []"
proof -
  have ro: "permissions alice = 1" by (simp add: alice_def)
  have quiet: "\<forall>ev \<in> set [ServerBroadcast ''a'' ''doc-42'' ''scene'' (Some ''iv''),
         ServerBroadcast ''a'' ''doc-42'' ''scene'' None,
         ServerBroadcast ''b'' ''doc-42'' ''scene'' (Some ''iv''),
         JoinRoom ''a'' ''other'',
         ServerBroadcast ''a'' ''other'' ''scene'' (Some ''iv''),
         Close ''b'']. \<not> opens_or_closes ''a'' ev"
    by simp
  from read_only_never_relays_durable [OF doc42_state_data(1) ro quiet, of demo_deps]
  show ?thesis by (simp add: doc42_state_data ro doc42_state_no_relay_yet)
qed

section \<open>Membership lists\<close>

lemma user_sockets_of_Inr:
  "user_sockets_of s xs = Inr us \<Longrightarrow>
     list_all2 (\<lambda>x e. fst e = x \<and> (\<exists>d. socketDataMap s x = Some d \<and> snd e = user d)) xs us"
  by (induction xs arbitrary: us)
     (auto simp: getSocketData_def split: option.splits sum.splits)

lemma user_sockets_of_filter:
  "user_sockets_of s xs = Inr us \<Longrightarrow>
     user_sockets_of s (filter (\<lambda>x. x \<noteq> y) xs) = Inr (filter (\<lambda>e. fst e \<noteq> y) us)"
  by (induction xs arbitrary: us)
     (auto simp: getSocketData_def split: option.splits sum.splits)

lemma user_ids_of_Inr:
  "user_ids_of s us = Inr ids \<Longrightarrow>
     list_all2 (\<lambda>e u. \<exists>d. socketDataMap s (fst e) = Some d \<and> u = user_id (user d)) us ids"
  by (induction us arbitrary: ids)
     (auto simp: getSocketData_def split: option.splits sum.splits)

lemma member_ids:
  assumes "getUserSockets s r = Inr us" and "user_ids_of s us = Inr ids"
  shows "list_all2 (\<lambda>x u. \<exists>d. socketDataMap s x = Some d \<and> u = user_id (user d))
           (fetchSockets s r) ids"
proof -
  have a: "list_all2 (\<lambda>x e. fst e = x \<and> (\<exists>d. socketDataMap s x = Some d \<and> snd e = user d))
             (fetchSockets s r) us"
    using assms(1) unfolding getUserSockets_def by (rule user_sockets_of_Inr)
  have b: "list_all2 (\<lambda>e u. \<exists>d. socketDataMap s (fst e) = Some d \<and> u = user_id (user d)) us ids"
    using assms(2) by (rule user_ids_of_Inr)
  from a b show ?thesis
    by (rule list_all2_trans [rotated]) auto
qed

lemma count_member_ids:
  "list_all2 (\<lambda>x u. \<exists>d. m x = Some d \<and> u = g d) xs ids \<Longrightarrow>
     count_list ids u = length (filter (\<lambda>x. \<exists>d. m x = Some d \<and> g d = u) xs)"
  by (induction rule: list_all2_induct) auto

lemma getOther_after_getUser:
  assumes "getUserSockets s r = Inr us"
      and "socketDataMap s' = socketDataMap s" and "joined s' = joined s"
  shows "getOtherUserSockets s' r y = Inr (filter (\<lambda>e. fst e \<noteq> y) us)"
proof -
  have "user_sockets_of s (fetchSockets s r) = Inr us"
    using assms(1) by (simp add: getUserSockets_def)
  then have "user_sockets_of s (filter (\<lambda>x. x \<noteq> y) (fetchSockets s r)) =
             Inr (filter (\<lambda>e. fst e \<noteq> y) us)"
    by (rule user_sockets_of_filter)
  then show ?thesis
    by (simp add: getOtherUserSockets_def fetchSockets_cong [OF assms(3)]
                  user_sockets_of_cong [OF assms(2)])
qed

text \<open>When \<open>joinRoomHandler\<close> has called the Room Store: what it called it with, and what it emits on a snapshot.\<close>

lemma joinRoomHandler_store_call:
  assumes h: "joinRoomHandler E s sid roomID = (s', f)"
      and changed: "syncCalls s' \<noteq> syncCalls s"
  obtains us ids sd where
    "getUserSockets (socket_join s sid roomID) roomID = Inr us"
    "user_ids_of (socket_join s sid roomID) us = Inr ids"
    "socketDataMap s sid = Some sd"
    "joined s' = joined (socket_join s sid roomID)"
    "syncCalls s' = syncCalls s @
       [\<lparr>sc_roomID = roomID, sc_elements = Null, sc_users = ids,
         sc_lastEditedUser = Null,
         sc_jwtToken = (case token sd of None \<Rightarrow> Undefined | Some t \<Rightarrow> Val t)\<rparr>]"
    "\<And>rd. syncRoomData E (syncCalls s)
             \<lparr>sc_roomID = roomID, sc_elements = Null, sc_users = ids,
              sc_lastEditedUser = Null,
              sc_jwtToken = (case token sd of None \<Rightarrow> Undefined | Some t \<Rightarrow> Val t)\<rparr> = SyncRoom rd
       \<Longrightarrow> f = None \<and>
           emitted s' = emitted s @
             [\<lparr>origin = sid, recipients = [sid],
               payload = JoinedData (json_render E rd), volatile = False\<rparr>,
              \<lparr>origin = sid, recipients = fetchSockets s' roomID,
               payload = RoomUserChange (filter (\<lambda>e. fst e \<noteq> sid) us),
               volatile = False\<rparr>]"
proof (cases "getUserSockets (socket_join s sid roomID) roomID")
  case (Inl e)
  with h have "s' = socket_join s sid roomID" by (auto simp: joinRoomHandler_def Let_def)
  with changed show ?thesis by simp
next
  case us: (Inr us)
  show ?thesis
  proof (cases "user_ids_of (socket_join s sid roomID) us")
    case (Inl e)
    with h us have "s' = socket_join s sid roomID" by (auto simp: joinRoomHandler_def Let_def)
    with changed show ?thesis by simp
  next
    case ids: (Inr ids)
    show ?thesis
    proof (cases "socketDataMap s sid")
      case None
      with h us ids have "s' = socket_join s sid roomID"
        by (auto simp: joinRoomHandler_def Let_def getSocketData_def)
      with changed show ?thesis by simp
    next
      case sd: (Some sd)
      let ?c = "\<lparr>sc_roomID = roomID, sc_elements = Null, sc_users = ids,
                sc_lastEditedUser = Null,
                sc_jwtToken = (case token sd of None \<Rightarrow> Undefined | Some t \<Rightarrow> Val t)\<rparr>"
      let ?s2 = "snd (call_store E (socket_join s sid roomID) ?c)"
      have other: "getOtherUserSockets (emit ?s2 sid [sid] m False) roomID sid =
                     Inr (filter (\<lambda>e. fst e \<noteq> sid) us)" for m
        using us by (rule getOther_after_getUser) simp_all
      have calls: "syncCalls s' = syncCalls s @ [?c]"
        using h us ids sd other
        by (cases "syncRoomData E (syncCalls s) ?c")
           (auto simp: joinRoomHandler_def Let_def getSocketData_def case_prod_beta to_self_def)
      have jn: "joined s' = joined (socket_join s sid roomID)"
        using h us ids sd other
        by (cases "syncRoomData E (syncCalls s) ?c")
           (auto simp: joinRoomHandler_def Let_def getSocketData_def case_prod_beta to_self_def)
      have snap: "f = None \<and>
           emitted s' = emitted s @
             [\<lparr>origin = sid, recipients = [sid],
               payload = JoinedData (json_render E rd), volatile = False\<rparr>,
              \<lparr>origin = sid, recipients = fetchSockets s' roomID,
               payload = RoomUserChange (filter (\<lambda>e. fst e \<noteq> sid) us),
               volatile = False\<rparr>]"
        if "syncRoomData E (syncCalls s) ?c = SyncRoom rd" for rd
        using h us ids sd other that
        by (auto simp: joinRoomHandler_def Let_def getSocketData_def case_prod_beta to_self_def
                       io_in_def fetchSockets_def)
      from us ids sd jn calls snap show ?thesis by (rule that)
    qed
  qed
qed

text \<open>When \<open>serverBroadcastHandler\<close> has called the Room Store: what it called it with.\<close>

lemma serverBroadcastHandler_store_call:
  assumes h: "serverBroadcastHandler E s sid roomID buf iv = (s', f)"
      and changed: "syncCalls s' \<noteq> syncCalls s"
  obtains us ids sd el where
    "getUserSockets s roomID = Inr us"
    "user_ids_of s us = Inr ids"
    "socketDataMap s sid = Some sd"
    "joined s' = joined s"
    "syncCalls s' = syncCalls s @
       [\<lparr>sc_roomID = roomID, sc_elements = el, sc_users = ids,
         sc_lastEditedUser = Val (user_id (user sd)), sc_jwtToken = Undefined\<rparr>]"
proof (cases "roomID \<notin> set (socket_rooms s sid) \<or> isSocketReadOnly s sid")
  case True
  with h have "s' = s" by (auto simp: serverBroadcastHandler_def)
  with changed show ?thesis by simp
next
  case go: False
  let ?s1 = "emit s sid (broadcast_to s sid roomID) (ClientBroadcast buf iv) False"
  have g: "getUserSockets ?s1 roomID = getUserSockets s roomID"
    by (simp add: getUserSockets_def fetchSockets_def
                  user_sockets_of_cong [where s' = ?s1 and s = s])
  have u: "user_ids_of ?s1 us = user_ids_of s us" for us
    by (simp add: user_ids_of_cong [where s' = ?s1 and s = s])
  show ?thesis
  proof (cases "json_parse E buf")
    case None
    with h go have "s' = ?s1" by (auto simp: serverBroadcastHandler_def Let_def)
    with changed show ?thesis by simp
  next
    case parsed: (Some decryptedData)
    show ?thesis
    proof (cases "socketDataMap s sid")
      case None
      with h go parsed have "s' = ?s1"
        by (auto simp: serverBroadcastHandler_def Let_def getSocketData_def)
      with changed show ?thesis by simp
    next
      case sd: (Some sd)
      show ?thesis
      proof (cases "getUserSockets s roomID")
        case (Inl e)
        with h go parsed sd g have "s' = ?s1"
          by (auto simp: serverBroadcastHandler_def Let_def getSocketData_def)
        with changed show ?thesis by simp
      next
        case us: (Inr us)
        show ?thesis
        proof (cases "user_ids_of s us")
          case (Inl e)
          with h go parsed sd g u us have "s' = ?s1"
            by (auto simp: serverBroadcastHandler_def Let_def getSocketData_def)
          with changed show ?thesis by simp
        next
          case ids: (Inr ids)
          have "\<exists>el. s' = ?s1 \<or> s' = snd (call_store E ?s1
                   \<lparr>sc_roomID = roomID, sc_elements = el, sc_users = ids,
                    sc_lastEditedUser = Val (user_id (user sd)), sc_jwtToken = Undefined\<rparr>)"
          proof (cases "js_prop decryptedData ''payload''")
            case (Inl e)
            with h go parsed sd g u us ids have "s' = ?s1"
              by (auto simp: serverBroadcastHandler_def Let_def getSocketData_def)
            then show ?thesis by simp
          next
            case outer: (Inr po)
            show ?thesis
            proof (cases po)
              case None
              with h go parsed sd g u us ids outer have "s' = ?s1"
                by (auto simp: serverBroadcastHandler_def Let_def getSocketData_def)
              then show ?thesis by simp
            next
              case p: (Some p)
              show ?thesis
              proof (cases "js_prop p ''elements''")
                case (Inl e)
                with h go parsed sd g u us ids outer p have "s' = ?s1"
                  by (auto simp: serverBroadcastHandler_def Let_def getSocketData_def)
                then show ?thesis by simp
              next
                case el: (Inr elements)
                let ?c = "\<lparr>sc_roomID = roomID, sc_elements = js_of_prop elements, sc_users = ids,
                    sc_lastEditedUser = Val (user_id (user sd)), sc_jwtToken = Undefined\<rparr>"
                have "s' = snd (call_store E ?s1 ?c)"
                  using h go parsed sd g u us ids outer p el
                  by (cases "syncRoomData E (syncCalls s) ?c")
                     (auto simp: serverBroadcastHandler_def Let_def getSocketData_def
                                 case_prod_beta)
                then show ?thesis by blast
              qed
            qed
          qed
          with changed obtain el where
            "s' = snd (call_store E ?s1
                   \<lparr>sc_roomID = roomID, sc_elements = el, sc_users = ids,
                    sc_lastEditedUser = Val (user_id (user sd)), sc_jwtToken = Undefined\<rparr>)"
            by auto
          then have "joined s' = joined s"
            and "syncCalls s' = syncCalls s @
                   [\<lparr>sc_roomID = roomID, sc_elements = el, sc_users = ids,
                     sc_lastEditedUser = Val (user_id (user sd)), sc_jwtToken = Undefined\<rparr>]"
            by simp_all
          with us ids sd show ?thesis by (rule that)
        qed
      qed
    qed
  qed
qed

section \<open>Joining a room\<close>

lemma doc42_one_member_members:
  "fetchSockets doc42_one_member ''doc-42'' = [''a'']"
  by (simp add: fetchSockets_def doc42_one_member_joined)

lemma doc42_second_join_call:
  "syncCalls (fst (joinRoomHandler demo_deps doc42_one_member ''b'' ''doc-42'')) =
     syncCalls doc42_one_member @
       [\<lparr>sc_roomID = ''doc-42'', sc_elements = Null, sc_users = [''alice'', ''bob''],
         sc_lastEditedUser = Null, sc_jwtToken = Val ''tb''\<rparr>]"
  by (simp add: scenario_defs handler_defs)

lemma demo_store_doc42:
  "syncRoomData demo_deps hist
     \<lparr>sc_roomID = ''doc-42'', sc_elements = el, sc_users = ids,
      sc_lastEditedUser = ed, sc_jwtToken = tk\<rparr> = SyncRoom (JObj [(''elements'', JArr [])])"
  by (simp add: demo_deps_def)

lemma demo_render_snapshot:
  "json_render demo_deps (JObj [(''elements'', JArr [])]) = ''{elements:[],}''"
  by (simp add: demo_deps_def)

text \<open>
  Claim C2, as stated, fails in the scenario it names. Alice is the one member of
  \<open>doc-42\<close> when Bob joins: the presence change goes to Alice and to Bob, the joiner,
  and the list it carries holds Alice's identity, not Bob's.
\<close>

theorem join_presence_counterexample:
  "fetchSockets doc42_one_member ''doc-42'' = [''a''] \<and>
   emitted (fst (joinRoomHandler demo_deps doc42_one_member ''b'' ''doc-42'')) =
     emitted doc42_one_member @
       [\<lparr>origin = ''b'', recipients = [''b''],
         payload = JoinedData ''{elements:[],}'', volatile = False\<rparr>,
        \<lparr>origin = ''b'', recipients = [''a'', ''b''],
         payload = RoomUserChange [(''a'', \<lparr>user_id = ''alice'', user_name = ''Alice''\<rparr>)],
         volatile = False\<rparr>]"
  by (simp add: scenario_defs handler_defs)

text \<open>
  Claim C2 (amended). When a connection joins a room and the Room Store returns a
  snapshot, the handler emits exactly two messages: the snapshot, to the joining
  connection only, and then a presence change, to every member of the room, the joiner
  included. The members are those the room had, followed by the joiner if it is new; so
  when a second connection joins a room of one member, that member receives a presence
  change.
\<close>

theorem joinRoomHandler_snapshot_delivery:
  assumes "joinRoomHandler E s sid roomID = (s', f)"
      and "syncCalls s' = syncCalls s @ [c]"
      and "syncRoomData E (syncCalls s) c = SyncRoom rd"
  shows "f = None \<and>
         (\<exists>us. emitted s' = emitted s @
            [\<lparr>origin = sid, recipients = [sid],
              payload = JoinedData (json_render E rd), volatile = False\<rparr>,
             \<lparr>origin = sid, recipients = fetchSockets s' roomID,
              payload = RoomUserChange us, volatile = False\<rparr>]) \<and>
         fetchSockets s' roomID =
           (if sid \<in> set (fetchSockets s roomID) then fetchSockets s roomID
            else fetchSockets s roomID @ [sid])"
proof -
  from assms(2) have changed: "syncCalls s' \<noteq> syncCalls s" by simp
  from assms(1) changed obtain us ids and sd :: session_data where
    j: "joined s' = joined (socket_join s sid roomID)" and
    c: "syncCalls s' = syncCalls s @
          [\<lparr>sc_roomID = roomID, sc_elements = Null, sc_users = ids,
            sc_lastEditedUser = Null,
            sc_jwtToken = (case token sd of None \<Rightarrow> Undefined | Some t \<Rightarrow> Val t)\<rparr>]" and
    r: "\<And>rd. syncRoomData E (syncCalls s)
             \<lparr>sc_roomID = roomID, sc_elements = Null, sc_users = ids,
              sc_lastEditedUser = Null,
              sc_jwtToken = (case token sd of None \<Rightarrow> Undefined | Some t \<Rightarrow> Val t)\<rparr> = SyncRoom rd
       \<Longrightarrow> f = None \<and>
           emitted s' = emitted s @
             [\<lparr>origin = sid, recipients = [sid],
               payload = JoinedData (json_render E rd), volatile = False\<rparr>,
              \<lparr>origin = sid, recipients = fetchSockets s' roomID,
               payload = RoomUserChange (filter (\<lambda>e. fst e \<noteq> sid) us),
               volatile = False\<rparr>]"
    by (rule joinRoomHandler_store_call) (rule that; assumption)
  from c assms(2) have "c = \<lparr>sc_roomID = roomID, sc_elements = Null, sc_users = ids,
            sc_lastEditedUser = Null,
            sc_jwtToken = (case token sd of None \<Rightarrow> Undefined | Some t \<Rightarrow> Val t)\<rparr>"
    by simp
  with assms(3) have out: "f = None \<and> emitted s' = emitted s @
                   [\<lparr>origin = sid, recipients = [sid],
                     payload = JoinedData (json_render E rd), volatile = False\<rparr>,
                    \<lparr>origin = sid, recipients = fetchSockets s' roomID,
                     payload = RoomUserChange (filter (\<lambda>e. fst e \<noteq> sid) us),
                     volatile = False\<rparr>]"
    by (intro r) simp
  have "fetchSockets s' roomID = fetchSockets (socket_join s sid roomID) roomID"
    using j by (rule fetchSockets_cong)
  then have mem: "fetchSockets s' roomID =
           (if sid \<in> set (fetchSockets s roomID) then fetchSockets s roomID
            else fetchSockets s roomID @ [sid])"
    by (simp only: fetchSockets_socket_join)
  from out mem show ?thesis by blast
qed

text \<open>Bob joins \<open>doc-42\<close>, where Alice is: Bob alone gets the snapshot, both get the presence change.\<close>

theorem joinRoomHandler_snapshot_delivery_witness:
  "snd (joinRoomHandler demo_deps doc42_one_member ''b'' ''doc-42'') = None \<and>
   (\<exists>us. emitted (fst (joinRoomHandler demo_deps doc42_one_member ''b'' ''doc-42'')) =
      emitted doc42_one_member @
        [\<lparr>origin = ''b'', recipients = [''b''],
          payload = JoinedData ''{elements:[],}'', volatile = False\<rparr>,
         \<lparr>origin = ''b'', recipients = [''a'', ''b''],
          payload = RoomUserChange us, volatile = False\<rparr>])"
proof -
  let ?r = "joinRoomHandler demo_deps doc42_one_member ''b'' ''doc-42''"
  have run: "?r = (fst ?r, snd ?r)" by simp
  note inst = joinRoomHandler_snapshot_delivery
                [OF run doc42_second_join_call demo_store_doc42]
  from inst have none: "snd ?r = None" by (rule conjunct1)
  from inst have members: "fetchSockets (fst ?r) ''doc-42'' = [''a'', ''b'']"
    by (simp add: doc42_one_member_members)
  from inst obtain us where
    "emitted (fst ?r) = emitted doc42_one_member @
        [\<lparr>origin = ''b'', recipients = [''b''],
          payload = JoinedData (json_render demo_deps (JObj [(''elements'', JArr [])])),
          volatile = False\<rparr>,
         \<lparr>origin = ''b'', recipients = fetchSockets (fst ?r) ''doc-42'',
          payload = RoomUserChange us, volatile = False\<rparr>]"
    by blast
  then have "emitted (fst ?r) = emitted doc42_one_member @
        [\<lparr>origin = ''b'', recipients = [''b''],
          payload = JoinedData ''{elements:[],}'', volatile = False\<rparr>,
         \<lparr>origin = ''b'', recipients = [''a'', ''b''],
          payload = RoomUserChange us, volatile = False\<rparr>]"
    by (simp only: members demo_render_snapshot)
  with none show ?thesis by blast
qed

section \<open>The member ids given to the Room Store\<close>

lemma two_tabs_members:
  "fetchSockets (fst (joinRoomHandler demo_deps two_tabs_one_joined ''b2'' ''doc-42''))
     ''doc-42'' = [''b'', ''b2'']"
  by (simp add: scenario_defs handler_defs)

lemma two_tabs_join_call:
  "syncCalls (fst (joinRoomHandler demo_deps two_tabs_one_joined ''b2'' ''doc-42'')) =
     syncCalls two_tabs_one_joined @
       [\<lparr>sc_roomID = ''doc-42'', sc_elements = Null, sc_users = [''bob'', ''bob''],
         sc_lastEditedUser = Null, sc_jwtToken = Val ''tb''\<rparr>]"
  by (simp add: scenario_defs handler_defs)

text \<open>
  Claim C4, as stated, fails: nothing in the handlers removes duplicates. Bob has two
  connections in \<open>doc-42\<close>; the second join and a durable broadcast both pass the Room
  Store his id twice.
\<close>

theorem member_ids_duplicate_counterexample:
  "map sc_users
     (syncCalls (run demo_deps two_tabs_one_joined
        [JoinRoom ''b2'' ''doc-42'',
         ServerBroadcast ''b'' ''doc-42'' ''scene'' (Some ''iv'')])) =
   [[''bob''], [''bob'', ''bob''], [''bob'', ''bob'']]"
  by code_simp

text \<open>
  Claim C4 (amended). The member-id list passed to \<open>syncRoomData\<close> on join and on
  durable broadcast has one entry for each connection in the room, in the order of the
  enumeration: the user id of that connection's session. A user id therefore appears as
  many times as that user has connections in the room, and at most once only for a user
  with a single connection there.
\<close>

theorem syncRoomData_users_per_connection:
  assumes "joinRoomHandler E s sid roomID = (s', f) \<or>
           serverBroadcastHandler E s sid roomID buf iv = (s', f)"
      and "syncCalls s' = syncCalls s @ [c]"
  shows "list_all2 (\<lambda>x u. \<exists>d. socketDataMap s x = Some d \<and> u = user_id (user d))
           (fetchSockets s' roomID) (sc_users c) \<and>
         (\<forall>u. count_list (sc_users c) u =
               length (filter (\<lambda>x. \<exists>d. socketDataMap s x = Some d \<and> user_id (user d) = u)
                         (fetchSockets s' roomID)))"
proof -
  from assms(2) have changed: "syncCalls s' \<noteq> syncCalls s" by simp
  have all2: "list_all2 (\<lambda>x u. \<exists>d. socketDataMap s x = Some d \<and> u = user_id (user d))
           (fetchSockets s' roomID) (sc_users c)"
    using assms(1)
  proof
    assume j: "joinRoomHandler E s sid roomID = (s', f)"
    from j changed obtain us ids and sd :: session_data where
      us: "getUserSockets (socket_join s sid roomID) roomID = Inr us" and
      ids: "user_ids_of (socket_join s sid roomID) us = Inr ids" and
      jn: "joined s' = joined (socket_join s sid roomID)" and
      c: "syncCalls s' = syncCalls s @
          [\<lparr>sc_roomID = roomID, sc_elements = Null, sc_users = ids,
            sc_lastEditedUser = Null,
            sc_jwtToken = (case token sd of None \<Rightarrow> Undefined | Some t \<Rightarrow> Val t)\<rparr>]"
      by (rule joinRoomHandler_store_call) (rule that; assumption)
    from c assms(2) have eq: "sc_users c = ids" by auto
    have "list_all2 (\<lambda>x u. \<exists>d. socketDataMap (socket_join s sid roomID) x = Some d \<and>
                               u = user_id (user d))
            (fetchSockets (socket_join s sid roomID) roomID) ids"
      using us ids by (rule member_ids)
    then show ?thesis by (simp add: fetchSockets_cong [OF jn] eq)
  next
    assume b: "serverBroadcastHandler E s sid roomID buf iv = (s', f)"
    from b changed obtain us ids and sd :: session_data and el where
      us: "getUserSockets s roomID = Inr us" and
      ids: "user_ids_of s us = Inr ids" and
      jn: "joined s' = joined s" and
      c: "syncCalls s' = syncCalls s @
       [\<lparr>sc_roomID = roomID, sc_elements = el, sc_users = ids,
         sc_lastEditedUser = Val (user_id (user sd)), sc_jwtToken = Undefined\<rparr>]"
      by (rule serverBroadcastHandler_store_call) (rule that; assumption)
    from c assms(2) have eq: "sc_users c = ids" by auto
    have "list_all2 (\<lambda>x u. \<exists>d. socketDataMap s x = Some d \<and> u = user_id (user d))
            (fetchSockets s roomID) ids"
      using us ids by (rule member_ids)
    then show ?thesis by (simp add: fetchSockets_cong [OF jn] eq)
  qed
  from count_member_ids [OF all2] all2 show ?thesis by blast
qed

text \<open>Bob's second connection joins: two connections of Bob in the room, his id twice in the list.\<close>

theorem syncRoomData_users_per_connection_witness:
  "length (filter (\<lambda>x. \<exists>d. socketDataMap two_tabs_one_joined x = Some d \<and>
                               user_id (user d) = ''bob'')
             [''b'', ''b2'']) =
     count_list [''bob'', ''bob''] ''bob'' \<and>
   count_list [''bob'', ''bob''] ''bob'' = 2"
proof -
  let ?r = "joinRoomHandler demo_deps two_tabs_one_joined ''b2'' ''doc-42''"
  have run: "?r = (fst ?r, snd ?r) \<or>
             serverBroadcastHandler demo_deps two_tabs_one_joined ''b2'' ''doc-42'' [] None =
               (fst ?r, snd ?r)"
    by simp
  have "count_list
          (sc_users \<lparr>sc_roomID = ''doc-42'', sc_elements = Null, sc_users = [''bob'', ''bob''],
                     sc_lastEditedUser = Null, sc_jwtToken = Val ''tb''\<rparr>) ''bob'' =
        length (filter (\<lambda>x. \<exists>d. socketDataMap two_tabs_one_joined x = Some d \<and>
                               user_id (user d) = ''bob'')
                  (fetchSockets (fst ?r) ''doc-42''))"
    by (rule syncRoomData_users_per_connection
               [OF run two_tabs_join_call, THEN conjunct2, rule_format])
  then have twice: "count_list [''bob'', ''bob''] ''bob'' =
        length (filter (\<lambda>x. \<exists>d. socketDataMap two_tabs_one_joined x = Some d \<and>
                               user_id (user d) = ''bob'')
                  [''b'', ''b2''])"
    by (simp only: two_tabs_members sync_call.select_convs)
  have two: "count_list [''bob'', ''bob''] ''bob'' = 2" by simp
  from twice [symmetric] two show ?thesis by (rule conjI)
qed

section \<open>Disconnecting\<close>

text \<open>
  Claim C3 does not hold of the code. Alice and Bob are in \<open>doc-42\<close> and Alice's
  connection closes. \<open>disconnectingHandler\<close> reads \<open>socket.rooms\<close> only after its
  first \<open>await\<close>, when Alice's socket has left every room: the loop has nothing to go
  through. Bob, who remains, is sent no presence change, and the Room Store is not
  called at all; the membership it holds for \<open>doc-42\<close> is not updated.
\<close>

theorem close_skips_disconnecting_loop:
  "fetchSockets doc42_state ''doc-42'' = [''a'', ''b''] \<and>
   socket_rooms doc42_state ''a'' = [''a'', ''doc-42''] \<and>
   snd (handle demo_deps doc42_state (Close ''a'')) = None \<and>
   fetchSockets (step demo_deps doc42_state (Close ''a'')) ''doc-42'' = [''b''] \<and>
   emitted (step demo_deps doc42_state (Close ''a'')) = emitted doc42_state \<and>
   syncCalls (step demo_deps doc42_state (Close ''a'')) = syncCalls doc42_state"
  by (simp add: doc42_state_members step_def handle_Close doc42_state_data
                handleDisconnect_def deleteSocketData_def socket_leaveAll_def
                fetchSockets_def doc42_state_joined del: handle.simps)

end
